theory Spec2Isabelle
  imports
    Complex_Main
    "HOL-Library.Word"
    "HOL-Library.Multiset"
    "HOL-Library.Signed_Division"
    "HOL-Library.Log_Nat"
begin

section \<open>Runtime failures of the Go code\<close>

text \<open>
  A Go panic is a value of the model: every operation that can index a slice out of range,
  divide by zero or allocate a slice of negative length returns \<open>panic + 'a\<close>.
  \<open>ConversionOutOfRange\<close> marks a float-to-int conversion whose operand does not fit the
  integer type, where the Go specification leaves the result to the implementation.
\<close>

datatype panic =
    IndexOutOfRange
  | SliceBoundsOutOfRange
  | DivideByZero
  | MakeSliceLenOutOfRange
  | ConversionOutOfRange

section \<open>Ring buffer (internal/metrics/percentile.go)\<close>

text \<open>
  \<open>float64\<close> samples are modelled as \<open>real\<close>: sums, products and quotients are exact.
  The fields \<open>capacity\<close>, \<open>index\<close> and \<open>size\<close> are Go \<open>int\<close>s and stay far below the
  overflow bound (they are bounded by the slice length), so they are \<open>int\<close> here.
\<close>

record RingBuffer =
  data :: "real list"
  capacity :: int
  index :: int
  rbsize :: int

definition NewRingBuffer :: "int \<Rightarrow> panic + RingBuffer" where
  "NewRingBuffer cap =
     (if cap < 0 then Inl MakeSliceLenOutOfRange
      else Inr \<lparr>data = replicate (nat cap) 0, capacity = cap, index = 0, rbsize = 0\<rparr>)"

text \<open>\<open>%\<close> is Go's truncated remainder, \<open>smod\<close>; a zero divisor panics.\<close>

definition Add :: "RingBuffer \<Rightarrow> real \<Rightarrow> panic + RingBuffer" where
  "Add rb v =
     (if index rb < 0 \<or> int (length (data rb)) \<le> index rb then Inl IndexOutOfRange
      else if capacity rb = 0 then Inl DivideByZero
      else Inr (rb\<lparr>data := (data rb)[nat (index rb) := v],
                    index := (index rb + 1) smod capacity rb,
                    rbsize := (if rbsize rb < capacity rb then rbsize rb + 1 else rbsize rb)\<rparr>))"


definition Reset :: "RingBuffer \<Rightarrow> RingBuffer" where
  "Reset rb = rb\<lparr>index := 0, rbsize := 0\<rparr>"

text \<open>
  \<open>int(x)\<close> on a float truncates towards zero; outside the range of a 64-bit \<open>int\<close> the
  result is implementation-defined, which the model reports instead of choosing a value.
\<close>

definition truncate_real :: "real \<Rightarrow> int" where
  "truncate_real x = (if 0 \<le> x then \<lfloor>x\<rfloor> else \<lceil>x\<rceil>)"

definition float_to_int :: "real \<Rightarrow> int option" where
  "float_to_int x =
     (let t = truncate_real x
      in if - (2 ^ 63) \<le> t \<and> t < 2 ^ 63 then Some t else None)"

text \<open>The index \<open>Percentile\<close> computes, after the clamp \<open>if index >= rb.size\<close>.\<close>

definition percentileIndex :: "RingBuffer \<Rightarrow> real \<Rightarrow> int option" where
  "percentileIndex rb p =
     (case float_to_int (real_of_int (rbsize rb) * p / 100) of
        None \<Rightarrow> None
      | Some i \<Rightarrow> Some (if rbsize rb \<le> i then rbsize rb - 1 else i))"

text \<open>The sorted copy of the live region \<open>rb.data[:rb.size]\<close>.\<close>

definition sortedData :: "RingBuffer \<Rightarrow> real list" where
  "sortedData rb = sort (take (nat (rbsize rb)) (data rb))"

definition Percentile :: "RingBuffer \<Rightarrow> real \<Rightarrow> panic + real" where
  "Percentile rb p =
     (if rbsize rb = 0 then Inr 0
      else if rbsize rb < 0 then Inl MakeSliceLenOutOfRange
      else if int (length (data rb)) < rbsize rb then Inl SliceBoundsOutOfRange
      else case percentileIndex rb p of
             None \<Rightarrow> Inl ConversionOutOfRange
           | Some i \<Rightarrow>
               if i < 0 \<or> int (length (sortedData rb)) \<le> i then Inl IndexOutOfRange
               else Inr (sortedData rb ! nat i))"

text \<open>
  The loops of \<open>Max\<close>, \<open>Min\<close> and \<open>Average\<close> run over \<open>rb.data[1..size)\<close> and
  \<open>rb.data[0..size)\<close>; each read \<open>rb.data[i]\<close> panics when \<open>i\<close> is not below the slice length.
\<close>

fun max_loop :: "real \<Rightarrow> real list \<Rightarrow> real" where
  "max_loop m [] = m"
| "max_loop m (x # xs) = max_loop (if x > m then x else m) xs"

fun min_loop :: "real \<Rightarrow> real list \<Rightarrow> real" where
  "min_loop m [] = m"
| "min_loop m (x # xs) = min_loop (if x < m then x else m) xs"

fun sum_loop :: "real \<Rightarrow> real list \<Rightarrow> real" where
  "sum_loop s [] = s"
| "sum_loop s (x # xs) = sum_loop (s + x) xs"

definition Max_rb :: "RingBuffer \<Rightarrow> panic + real" where
  "Max_rb rb =
     (if rbsize rb = 0 then Inr 0
      else case data rb of
             [] \<Rightarrow> Inl IndexOutOfRange
           | d0 # ds \<Rightarrow>
               if int (length (data rb)) < rbsize rb then Inl IndexOutOfRange
               else Inr (max_loop d0 (take (nat (rbsize rb) - 1) ds)))"

definition Min_rb :: "RingBuffer \<Rightarrow> panic + real" where
  "Min_rb rb =
     (if rbsize rb = 0 then Inr 0
      else case data rb of
             [] \<Rightarrow> Inl IndexOutOfRange
           | d0 # ds \<Rightarrow>
               if int (length (data rb)) < rbsize rb then Inl IndexOutOfRange
               else Inr (min_loop d0 (take (nat (rbsize rb) - 1) ds)))"

definition Average :: "RingBuffer \<Rightarrow> panic + real" where
  "Average rb =
     (if rbsize rb = 0 then Inr 0
      else if int (length (data rb)) < rbsize rb then Inl IndexOutOfRange
      else Inr (sum_loop 0 (take (nat (rbsize rb)) (data rb)) / real_of_int (rbsize rb)))"



subsection \<open>Percentile in float64 arithmetic\<close>

text \<open>
  \<open>percentileIndex\<close> above evaluates \<open>float64(rb.size) * p / 100.0\<close> on exact reals.
  \<open>Percentile_f64\<close> is \<open>Percentile\<close> with the three roundings of that expression (the
  conversion of the size, the product, the quotient) written out; the value that
  \<open>Percentile\<close> returns for a given \<open>p\<close> is stated of \<open>Percentile_f64\<close>. A finite \<open>float64\<close> is the real number it denotes
  and \<open>round_f64\<close> rounds a real to the nearest binary64 number: 53 significant bits, ties
  to even, gradual underflow below \<open>2 ^ - 1022\<close>. A result beyond the largest finite
  \<open>float64\<close> stands for the infinity it overflows to; the only consumer is \<open>float_to_int\<close>,
  which reports every value outside the 64-bit range.
\<close>

definition pow2 :: "int \<Rightarrow> real" where
  "pow2 t = (if 0 \<le> t then 2 ^ nat t else 1 / 2 ^ nat (- t))"

definition round_half_even :: "real \<Rightarrow> int" where
  "round_half_even y =
     (let f = \<lfloor>y\<rfloor>; d = y - of_int f
      in if d < 1 / 2 then f else if 1 / 2 < d then f + 1 else if even f then f else f + 1)"

text \<open>The binary exponent of \<open>x \<noteq> 0\<close>: the \<open>e\<close> with \<open>2 ^ e \<le> \<bar>x\<bar> < 2 ^ (e + 1)\<close>.\<close>

definition f64_exponent :: "real \<Rightarrow> int" where
  "f64_exponent x =
     (if 1 \<le> \<bar>x\<bar> then bitlen \<lfloor>\<bar>x\<bar>\<rfloor> - 1 else - bitlen (\<lceil>1 / \<bar>x\<bar>\<rceil> - 1))"

text \<open>The spacing of the binary64 numbers around \<open>x\<close>.\<close>

definition f64_ulp :: "real \<Rightarrow> real" where
  "f64_ulp x = pow2 (max (f64_exponent x) (- 1022) - 52)"

definition round_f64 :: "real \<Rightarrow> real" where
  "round_f64 x =
     (if x = 0 then 0 else of_int (round_half_even (x / f64_ulp x)) * f64_ulp x)"








text \<open>The shape every reachable buffer has; used as the invariant of the proofs below.\<close>

definition rb_ok :: "RingBuffer \<Rightarrow> bool" where
  "rb_ok rb \<longleftrightarrow>
     int (length (data rb)) = capacity rb \<and> capacity rb < 2 ^ 63 \<and>
     0 \<le> rbsize rb \<and> rbsize rb \<le> capacity rb \<and>
     0 \<le> index rb \<and> (index rb < capacity rb \<or> index rb = 0)"

section \<open>Configuration values (internal/config)\<close>

text \<open>
  A Go \<open>interface{}\<close> holding decoded YAML or JSON: \<open>nil\<close>, a scalar, a sequence or a
  \<open>map[string]interface{}\<close> (an association list read with \<open>map_of\<close>).
\<close>

datatype jval =
    JNull
  | JBool bool
  | JNum real
  | JString string
  | JArr "jval list"
  | JObj "(string \<times> jval) list"

record TokenEndpointConfig =
  te_URL :: string
  te_URLEnv :: string
  te_Method :: string
  te_UsernameEnv :: string
  te_PasswordEnv :: string
  te_Headers :: "string \<rightharpoonup> string"
  te_Body :: jval
  te_TokenPath :: string
  te_ExpiresPath :: string

record AuthConfig =
  ac_Name :: string
  ac_Type :: string
  ac_Description :: string
  ac_HeaderName :: string
  ac_QueryParam :: string
  ac_EnvVar :: string
  ac_UsernameEnv :: string
  ac_PasswordEnv :: string
  ac_TokenEndpoint :: "TokenEndpointConfig option"
  ac_RefreshBeforeExpiry :: int

text \<open>The zero value \<open>AuthConfig{}\<close>.\<close>

definition AuthConfig_zero :: AuthConfig where
  "AuthConfig_zero =
     \<lparr>ac_Name = [], ac_Type = [], ac_Description = [], ac_HeaderName = [],
      ac_QueryParam = [], ac_EnvVar = [], ac_UsernameEnv = [], ac_PasswordEnv = [],
      ac_TokenEndpoint = None, ac_RefreshBeforeExpiry = 0\<rparr>"

definition AuthTypeNone :: string where "AuthTypeNone = ''none''"
definition AuthTypeBearer :: string where "AuthTypeBearer = ''bearer''"
definition AuthTypeAPIKey :: string where "AuthTypeAPIKey = ''api_key''"
definition AuthTypeAPIKeyQuery :: string where "AuthTypeAPIKeyQuery = ''api_key_query''"
definition AuthTypeBasic :: string where "AuthTypeBasic = ''basic''"
definition AuthTypeCustom :: string where "AuthTypeCustom = ''custom_header''"

record Endpoint =
  ep_Name :: string
  ep_Method :: string
  ep_URLTemplate :: string
  ep_ConfigPath :: string
  ep_FrequencyPerMin :: real
  ep_Auth :: jval
  ep_ResolvedAuth :: "AuthConfig option"
  ep_Headers :: "string \<rightharpoonup> string"
  ep_Body :: jval
  ep_Timeout :: int
  ep_Enabled :: bool
  ep_EnabledSet :: bool

record IncomingResponseConfig =
  rc_StatusCode :: int
  rc_Share :: real
  rc_MinResponseMs :: int
  rc_MaxResponseMs :: int

record IncomingEndpoint =
  ie_Name :: string
  ie_Path :: string
  ie_Method :: string
  ie_Responses :: "IncomingResponseConfig list"
  ie_Enabled :: bool
  ie_EnabledSet :: bool

text \<open>
  \<open>AuthConfigs\<close> is a \<open>map[string]*AuthConfig\<close>; its entries are non-nil pointers (every
  writer of the map stores a pointer it has just dereferenced), and a nil map reads as the
  empty map.
\<close>

record Config =
  cfg_Enabled :: bool
  cfg_GlobalMultiplier :: real
  cfg_ConcurrentRequests :: int
  cfg_LogAllRequests :: bool
  cfg_APIPort :: int
  cfg_AuthConfigs :: "string \<rightharpoonup> AuthConfig"
  cfg_Endpoints :: "Endpoint list"
  cfg_IncomingEnabled :: bool
  cfg_IncomingRoutes :: "IncomingEndpoint list"

subsection \<open>Validation\<close>

text \<open>
  The validators return a list of messages built with \<open>fmt.Sprintf\<close>; the model keeps one
  constructor per message and drops the interpolated text, since callers only test the
  list for emptiness. The index of a response is kept.
\<close>

datatype verr =
    AuthNameRequired
  | AuthInvalidType
  | HeaderNameRequired
  | EnvVarOrTokenEndpointRequired
  | QueryParamRequired
  | EnvVarRequired
  | BasicEnvRequired
  | BearerSourceRequired
  | TokenURLRequired
  | TokenMethodRequired
  | TokenPathRequired
  | NameRequired
  | MethodRequired
  | InvalidMethod
  | URLRequired
  | FrequencyNegative
  | TimeoutNotPositive
  | PathRequired
  | PathMustStartWithSlash
  | ResponsesRequired
  | StatusOutOfRange nat
  | ShareOutOfRange nat
  | MinNegative nat
  | MaxNegative nat
  | MaxBelowMin nat
  | SharesMustSumToOne
  | GlobalMultiplierNegative
  | ConcurrentRequestsNotPositive
  | NoEndpoints
  | DuplicateEndpointName string

definition validateTokenEndpoint :: "TokenEndpointConfig \<Rightarrow> verr list" where
  "validateTokenEndpoint te =
     (if te_URL te = [] \<and> te_URLEnv te = [] then [TokenURLRequired] else []) @
     (if te_Method te = [] then [TokenMethodRequired] else []) @
     (if te_TokenPath te = [] then [TokenPathRequired] else [])"

definition validTypes :: "string list" where
  "validTypes = [AuthTypeNone, AuthTypeBearer, AuthTypeAPIKey, AuthTypeAPIKeyQuery,
                 AuthTypeBasic, AuthTypeCustom]"

definition AuthConfig_Validate :: "AuthConfig \<Rightarrow> verr list" where
  "AuthConfig_Validate a =
     (if ac_Name a = [] then [AuthNameRequired] else []) @
     (if ac_Type a \<notin> set validTypes then [AuthInvalidType] else []) @
     (if ac_Type a = AuthTypeAPIKey \<or> ac_Type a = AuthTypeCustom then
        (if ac_HeaderName a = [] then [HeaderNameRequired] else []) @
        (if ac_EnvVar a = [] \<and> ac_TokenEndpoint a = None
         then [EnvVarOrTokenEndpointRequired] else [])
      else if ac_Type a = AuthTypeAPIKeyQuery then
        (if ac_QueryParam a = [] then [QueryParamRequired] else []) @
        (if ac_EnvVar a = [] then [EnvVarRequired] else [])
      else if ac_Type a = AuthTypeBasic then
        (if ac_UsernameEnv a = [] \<or> ac_PasswordEnv a = [] then [BasicEnvRequired] else [])
      else if ac_Type a = AuthTypeBearer then
        (if ac_EnvVar a = [] \<and> ac_TokenEndpoint a = None then [BearerSourceRequired] else []) @
        (case ac_TokenEndpoint a of None \<Rightarrow> [] | Some te \<Rightarrow> validateTokenEndpoint te)
      else [])"

definition validMethods :: "string list" where
  "validMethods = [''GET'', ''POST'', ''PUT'', ''DELETE'', ''PATCH'', ''HEAD'', ''OPTIONS'']"

definition Endpoint_Validate :: "Endpoint \<Rightarrow> verr list" where
  "Endpoint_Validate e =
     (if ep_Name e = [] then [NameRequired] else []) @
     (if ep_Method e = [] then [MethodRequired]
      else if ep_Method e \<notin> set validMethods then [InvalidMethod] else []) @
     (if ep_URLTemplate e = [] \<and> ep_ConfigPath e = [] then [URLRequired] else []) @
     (if ep_FrequencyPerMin e < 0 then [FrequencyNegative] else []) @
     (if ep_Timeout e \<le> 0 then [TimeoutNotPositive] else [])"

definition HasPrefix :: "string \<Rightarrow> string \<Rightarrow> bool" where
  "HasPrefix s pre \<longleftrightarrow> length pre \<le> length s \<and> take (length pre) s = pre"

definition TrimPrefix :: "string \<Rightarrow> string \<Rightarrow> string" where
  "TrimPrefix s pre = (if HasPrefix s pre then drop (length pre) s else s)"

definition Response_Validate :: "IncomingResponseConfig \<Rightarrow> nat \<Rightarrow> verr list" where
  "Response_Validate r i =
     (if rc_StatusCode r < 100 \<or> rc_StatusCode r > 599 then [StatusOutOfRange i] else []) @
     (if rc_Share r < 0 \<or> rc_Share r > 1 then [ShareOutOfRange i] else []) @
     (if rc_MinResponseMs r < 0 then [MinNegative i] else []) @
     (if rc_MaxResponseMs r < 0 then [MaxNegative i] else []) @
     (if rc_MaxResponseMs r < rc_MinResponseMs r then [MaxBelowMin i] else [])"

text \<open>The loop over \<open>e.Responses\<close>: the accumulated messages and the running \<open>totalShare\<close>.\<close>

fun validateResponses ::
  "IncomingResponseConfig list \<Rightarrow> nat \<Rightarrow> verr list \<Rightarrow> real \<Rightarrow> verr list \<times> real" where
  "validateResponses [] i errs totalShare = (errs, totalShare)"
| "validateResponses (r # rs) i errs totalShare =
     validateResponses rs (Suc i) (errs @ Response_Validate r i) (totalShare + rc_Share r)"

definition IncomingEndpoint_Validate :: "IncomingEndpoint \<Rightarrow> verr list" where
  "IncomingEndpoint_Validate e =
     (let errs0 =
            (if ie_Name e = [] then [NameRequired] else []) @
            (if ie_Path e = [] then [PathRequired]
             else if \<not> HasPrefix (ie_Path e) ''/'' then [PathMustStartWithSlash] else []) @
            (if ie_Method e = [] then [MethodRequired]
             else if ie_Method e \<noteq> ''*'' \<and> ie_Method e \<notin> set validMethods
             then [InvalidMethod] else []) @
            (if ie_Responses e = [] then [ResponsesRequired] else []);
          (errs1, totalShare) = validateResponses (ie_Responses e) 0 errs0 0
      in errs1 @
         (if ie_Responses e \<noteq> [] \<and> \<bar>totalShare - 1\<bar> > 1 / 1000
          then [SharesMustSumToOne] else []))"

subsection \<open>Auth resolution (ResolveEndpointAuth, parseAuthConfigMap)\<close>

datatype resolve_error =
    AuthRefNotFound string
  | InvalidAuthFormat
  | InlineMissingType

text \<open>\<open>authMap[k].(string)\<close>: the value under \<open>k\<close> when it is present and a string.\<close>

definition stringField :: "(string \<times> jval) list \<Rightarrow> string \<Rightarrow> string option" where
  "stringField authMap k =
     (case map_of authMap k of Some (JString s) \<Rightarrow> Some s | _ \<Rightarrow> None)"

definition authNone :: AuthConfig where
  "authNone = AuthConfig_zero\<lparr>ac_Type := AuthTypeNone\<rparr>"

definition parseAuthConfigMap ::
  "(string \<times> jval) list \<Rightarrow> (string \<rightharpoonup> AuthConfig) \<Rightarrow> resolve_error + AuthConfig" where
  "parseAuthConfigMap authMap configs =
     (case stringField authMap ''ref'' of
        Some (c # cs) \<Rightarrow>
          (case configs (c # cs) of
             None \<Rightarrow> Inl (AuthRefNotFound (c # cs))
           | Some baseCfg \<Rightarrow>
               (let cfg1 = (case stringField authMap ''header_name'' of
                              Some h \<Rightarrow> baseCfg\<lparr>ac_HeaderName := h\<rparr> | None \<Rightarrow> baseCfg);
                    cfg2 = (case stringField authMap ''query_param'' of
                              Some q \<Rightarrow> cfg1\<lparr>ac_QueryParam := q\<rparr> | None \<Rightarrow> cfg1)
                in Inr cfg2))
      | _ \<Rightarrow>
          (let c0 = AuthConfig_zero;
               c1 = (case stringField authMap ''type'' of
                       Some v \<Rightarrow> c0\<lparr>ac_Type := v\<rparr> | None \<Rightarrow> c0);
               c2 = (case stringField authMap ''header_name'' of
                       Some v \<Rightarrow> c1\<lparr>ac_HeaderName := v\<rparr> | None \<Rightarrow> c1);
               c3 = (case stringField authMap ''query_param'' of
                       Some v \<Rightarrow> c2\<lparr>ac_QueryParam := v\<rparr> | None \<Rightarrow> c2);
               c4 = (case stringField authMap ''env_var'' of
                       Some v \<Rightarrow> c3\<lparr>ac_EnvVar := v\<rparr> | None \<Rightarrow> c3);
               c5 = (case stringField authMap ''username_env'' of
                       Some v \<Rightarrow> c4\<lparr>ac_UsernameEnv := v\<rparr> | None \<Rightarrow> c4);
               c6 = (case stringField authMap ''password_env'' of
                       Some v \<Rightarrow> c5\<lparr>ac_PasswordEnv := v\<rparr> | None \<Rightarrow> c5)
           in if ac_Type c6 = [] then Inl InlineMissingType else Inr c6))"

definition ResolveEndpointAuth ::
  "jval \<Rightarrow> (string \<rightharpoonup> AuthConfig) \<Rightarrow> resolve_error + AuthConfig" where
  "ResolveEndpointAuth auth configs =
     (case auth of
        JNull \<Rightarrow> Inr authNone
      | JString ref \<Rightarrow>
          if ref = [] \<or> ref = AuthTypeNone then Inr authNone
          else (case configs ref of
                  None \<Rightarrow> Inl (AuthRefNotFound ref)
                | Some cfg \<Rightarrow> Inr cfg)
      | JObj authMap \<Rightarrow> parseAuthConfigMap authMap configs
      | _ \<Rightarrow> Inl InvalidAuthFormat)"

subsection \<open>Normalization (Manager.normalizeEndpoints, Manager.normalizeIncomingRoutes)\<close>

text \<open>The body of the loop of \<open>normalizeEndpoints\<close>, for one endpoint.\<close>

definition normalizeEndpoint :: "(string \<rightharpoonup> AuthConfig) \<Rightarrow> Endpoint \<Rightarrow> Endpoint" where
  "normalizeEndpoint configs e =
     (let e1 = (if ep_Timeout e = 0 then e\<lparr>ep_Timeout := 30\<rparr> else e);
          e2 = (if ep_Method e1 = [] then e1\<lparr>ep_Method := ''GET''\<rparr> else e1);
          e3 = (if \<not> ep_Enabled e2 \<and> \<not> ep_EnabledSet e2 then e2\<lparr>ep_Enabled := True\<rparr> else e2);
          e4 = (if ep_Auth e3 = JNull then e3\<lparr>ep_Auth := JString ''none''\<rparr> else e3)
      in case ResolveEndpointAuth (ep_Auth e4) configs of
           Inl err \<Rightarrow> e4\<lparr>ep_ResolvedAuth := Some authNone\<rparr>
         | Inr resolvedAuth \<Rightarrow> e4\<lparr>ep_ResolvedAuth := Some resolvedAuth\<rparr>)"

definition normalizeEndpoints :: "Config \<Rightarrow> Config" where
  "normalizeEndpoints cfg =
     cfg\<lparr>cfg_Endpoints := map (normalizeEndpoint (cfg_AuthConfigs cfg)) (cfg_Endpoints cfg)\<rparr>"

definition normalizeIncomingRoute :: "IncomingEndpoint \<Rightarrow> IncomingEndpoint" where
  "normalizeIncomingRoute r =
     (let r1 = (if ie_Method r = [] then r\<lparr>ie_Method := ''GET''\<rparr> else r)
      in if \<not> ie_Enabled r1 \<and> \<not> ie_EnabledSet r1 then r1\<lparr>ie_Enabled := True\<rparr> else r1)"

definition normalizeIncomingRoutes :: "Config \<Rightarrow> Config" where
  "normalizeIncomingRoutes cfg =
     cfg\<lparr>cfg_IncomingRoutes := map normalizeIncomingRoute (cfg_IncomingRoutes cfg)\<rparr>"

text \<open>Normalization as \<open>LoadFromFile\<close> and \<open>ReplaceConfig\<close> run it: endpoints, then routes.\<close>

definition normalize :: "Config \<Rightarrow> Config" where
  "normalize cfg = normalizeIncomingRoutes (normalizeEndpoints cfg)"

subsection \<open>The store and its mutations (Manager)\<close>

text \<open>
  The state of a \<open>Manager\<close> is the \<open>Config\<close> it points to. A mutation returns the error (or
  \<open>None\<close> for \<open>nil\<close>) together with the store it leaves behind, so that what an erroring
  call did to the store stays visible.
\<close>

datatype cfg_error =
    EndpointAlreadyExists string
  | EndpointNotFound string
  | ResolveAuthFailed resolve_error
  | ValidationFailed "verr list"
  | AuthNameIsRequired
  | AuthConfigAlreadyExists string
  | AuthConfigNotFound string
  | AuthConfigInUse string string
  | RouteAlreadyExists string
  | RouteNotFound string
  | ConfigNil

text \<open>The first index whose element satisfies \<open>P\<close>: the \<open>for i := range ... if ... return\<close> scans.\<close>

fun firstIndex :: "('a \<Rightarrow> bool) \<Rightarrow> 'a list \<Rightarrow> nat option" where
  "firstIndex P [] = None"
| "firstIndex P (x # xs) = (if P x then Some 0 else map_option Suc (firstIndex P xs))"

definition endpointDefaults :: "Endpoint \<Rightarrow> Endpoint" where
  "endpointDefaults e =
     (let e1 = (if ep_Timeout e = 0 then e\<lparr>ep_Timeout := 30\<rparr> else e);
          e2 = (if ep_Auth e1 = JNull then e1\<lparr>ep_Auth := JString ''none''\<rparr> else e1)
      in if ep_Method e2 = [] then e2\<lparr>ep_Method := ''GET''\<rparr> else e2)"

text \<open>The common tail of \<open>AddEndpoint\<close> and \<open>UpdateEndpoint\<close>: defaults, resolution, validation.\<close>

definition prepareEndpoint ::
  "(string \<rightharpoonup> AuthConfig) \<Rightarrow> Endpoint \<Rightarrow> cfg_error + Endpoint" where
  "prepareEndpoint configs endpoint =
     (let e = endpointDefaults endpoint
      in case ResolveEndpointAuth (ep_Auth e) configs of
           Inl err \<Rightarrow> Inl (ResolveAuthFailed err)
         | Inr resolvedAuth \<Rightarrow>
             (let e' = e\<lparr>ep_ResolvedAuth := Some resolvedAuth\<rparr>
              in if Endpoint_Validate e' \<noteq> [] then Inl (ValidationFailed (Endpoint_Validate e'))
                 else Inr e'))"

definition AddEndpoint :: "Config \<Rightarrow> Endpoint \<Rightarrow> cfg_error option \<times> Config" where
  "AddEndpoint cfg endpoint =
     (if list_ex (\<lambda>ep. ep_Name ep = ep_Name endpoint) (cfg_Endpoints cfg)
      then (Some (EndpointAlreadyExists (ep_Name endpoint)), cfg)
      else case prepareEndpoint (cfg_AuthConfigs cfg) endpoint of
             Inl err \<Rightarrow> (Some err, cfg)
           | Inr e \<Rightarrow> (None, cfg\<lparr>cfg_Endpoints := cfg_Endpoints cfg @ [e]\<rparr>))"

definition UpdateEndpoint :: "Config \<Rightarrow> string \<Rightarrow> Endpoint \<Rightarrow> cfg_error option \<times> Config" where
  "UpdateEndpoint cfg name endpoint =
     (case firstIndex (\<lambda>ep. ep_Name ep = name) (cfg_Endpoints cfg) of
        None \<Rightarrow> (Some (EndpointNotFound name), cfg)
      | Some i \<Rightarrow>
          if ep_Name endpoint \<noteq> name \<and>
             list_ex (\<lambda>j. ep_Name (cfg_Endpoints cfg ! j) = ep_Name endpoint \<and> i \<noteq> j)
               [0..<length (cfg_Endpoints cfg)]
          then (Some (EndpointAlreadyExists (ep_Name endpoint)), cfg)
          else case prepareEndpoint (cfg_AuthConfigs cfg) endpoint of
                 Inl err \<Rightarrow> (Some err, cfg)
               | Inr e \<Rightarrow> (None, cfg\<lparr>cfg_Endpoints := (cfg_Endpoints cfg)[i := e]\<rparr>))"

definition DeleteEndpoint :: "Config \<Rightarrow> string \<Rightarrow> cfg_error option \<times> Config" where
  "DeleteEndpoint cfg name =
     (case firstIndex (\<lambda>ep. ep_Name ep = name) (cfg_Endpoints cfg) of
        None \<Rightarrow> (Some (EndpointNotFound name), cfg)
      | Some i \<Rightarrow>
          (None, cfg\<lparr>cfg_Endpoints := take i (cfg_Endpoints cfg) @ drop (Suc i) (cfg_Endpoints cfg)\<rparr>))"

definition AddAuthConfig :: "Config \<Rightarrow> AuthConfig \<Rightarrow> cfg_error option \<times> Config" where
  "AddAuthConfig cfg authCfg =
     (if ac_Name authCfg = [] then (Some AuthNameIsRequired, cfg)
      else if cfg_AuthConfigs cfg (ac_Name authCfg) \<noteq> None
      then (Some (AuthConfigAlreadyExists (ac_Name authCfg)), cfg)
      else if AuthConfig_Validate authCfg \<noteq> []
      then (Some (ValidationFailed (AuthConfig_Validate authCfg)), cfg)
      else (None, cfg\<lparr>cfg_AuthConfigs := (cfg_AuthConfigs cfg)(ac_Name authCfg \<mapsto> authCfg)\<rparr>))"

text \<open>
  \<open>UpdateAuthConfig\<close> runs \<open>delete(m.config.AuthConfigs, name)\<close> when the name changes, and
  validates afterwards: \<open>cfg1\<close> is the store after that statement.
\<close>

definition UpdateAuthConfig :: "Config \<Rightarrow> string \<Rightarrow> AuthConfig \<Rightarrow> cfg_error option \<times> Config" where
  "UpdateAuthConfig cfg name authCfg =
     (if cfg_AuthConfigs cfg name = None then (Some (AuthConfigNotFound name), cfg)
      else if ac_Name authCfg \<noteq> name \<and> cfg_AuthConfigs cfg (ac_Name authCfg) \<noteq> None
      then (Some (AuthConfigAlreadyExists (ac_Name authCfg)), cfg)
      else
        (let cfg1 = (if ac_Name authCfg \<noteq> name
                     then cfg\<lparr>cfg_AuthConfigs := (cfg_AuthConfigs cfg)(name := None)\<rparr>
                     else cfg)
         in if AuthConfig_Validate authCfg \<noteq> []
            then (Some (ValidationFailed (AuthConfig_Validate authCfg)), cfg1)
            else (None,
                  cfg1\<lparr>cfg_AuthConfigs := (cfg_AuthConfigs cfg1)(ac_Name authCfg \<mapsto> authCfg)\<rparr>)))"

text \<open>The use check of \<open>DeleteAuthConfig\<close> is \<open>ep.Auth.(string)\<close> with \<open>authRef == name\<close>.\<close>

definition DeleteAuthConfig :: "Config \<Rightarrow> string \<Rightarrow> cfg_error option \<times> Config" where
  "DeleteAuthConfig cfg name =
     (if cfg_AuthConfigs cfg name = None then (Some (AuthConfigNotFound name), cfg)
      else case find (\<lambda>ep. ep_Auth ep = JString name) (cfg_Endpoints cfg) of
             Some ep \<Rightarrow> (Some (AuthConfigInUse name (ep_Name ep)), cfg)
           | None \<Rightarrow> (None, cfg\<lparr>cfg_AuthConfigs := (cfg_AuthConfigs cfg)(name := None)\<rparr>))"

definition prepareRoute :: "IncomingEndpoint \<Rightarrow> cfg_error + IncomingEndpoint" where
  "prepareRoute route =
     (let r = (if ie_Method route = [] then route\<lparr>ie_Method := ''GET''\<rparr> else route)
      in if IncomingEndpoint_Validate r \<noteq> []
         then Inl (ValidationFailed (IncomingEndpoint_Validate r))
         else Inr r)"

definition AddIncomingRoute :: "Config \<Rightarrow> IncomingEndpoint \<Rightarrow> cfg_error option \<times> Config" where
  "AddIncomingRoute cfg route =
     (if list_ex (\<lambda>r. ie_Name r = ie_Name route) (cfg_IncomingRoutes cfg)
      then (Some (RouteAlreadyExists (ie_Name route)), cfg)
      else case prepareRoute route of
             Inl err \<Rightarrow> (Some err, cfg)
           | Inr r \<Rightarrow> (None, cfg\<lparr>cfg_IncomingRoutes := cfg_IncomingRoutes cfg @ [r]\<rparr>))"

definition UpdateIncomingRoute ::
  "Config \<Rightarrow> string \<Rightarrow> IncomingEndpoint \<Rightarrow> cfg_error option \<times> Config" where
  "UpdateIncomingRoute cfg name route =
     (case firstIndex (\<lambda>r. ie_Name r = name) (cfg_IncomingRoutes cfg) of
        None \<Rightarrow> (Some (RouteNotFound name), cfg)
      | Some i \<Rightarrow>
          if ie_Name route \<noteq> name \<and>
             list_ex (\<lambda>j. ie_Name (cfg_IncomingRoutes cfg ! j) = ie_Name route \<and> i \<noteq> j)
               [0..<length (cfg_IncomingRoutes cfg)]
          then (Some (RouteAlreadyExists (ie_Name route)), cfg)
          else case prepareRoute route of
                 Inl err \<Rightarrow> (Some err, cfg)
               | Inr r \<Rightarrow> (None, cfg\<lparr>cfg_IncomingRoutes := (cfg_IncomingRoutes cfg)[i := r]\<rparr>))"

definition DeleteIncomingRoute :: "Config \<Rightarrow> string \<Rightarrow> cfg_error option \<times> Config" where
  "DeleteIncomingRoute cfg name =
     (case firstIndex (\<lambda>r. ie_Name r = name) (cfg_IncomingRoutes cfg) of
        None \<Rightarrow> (Some (RouteNotFound name), cfg)
      | Some i \<Rightarrow>
          (None, cfg\<lparr>cfg_IncomingRoutes :=
                       take i (cfg_IncomingRoutes cfg) @ drop (Suc i) (cfg_IncomingRoutes cfg)\<rparr>))"

text \<open>
  \<open>ReplaceConfig\<close> takes a \<open>*Config\<close>: \<open>None\<close> is the nil pointer. It writes the defaults
  and the normalization into the struct the caller passed and makes the store point to
  it, so the store it returns is also the caller's struct after the call.
\<close>

definition replaceDefaults :: "Config \<Rightarrow> Config" where
  "replaceDefaults newCfg =
     (let c1 = (if cfg_ConcurrentRequests newCfg \<le> 0
                then newCfg\<lparr>cfg_ConcurrentRequests := 30\<rparr> else newCfg);
          c2 = (if cfg_APIPort c1 \<le> 0 then c1\<lparr>cfg_APIPort := 8080\<rparr> else c1);
          c3 = (if cfg_GlobalMultiplier c2 = 0 then c2\<lparr>cfg_GlobalMultiplier := 1\<rparr> else c2)
      in c3\<lparr>cfg_AuthConfigs :=
               (\<lambda>name. map_option (\<lambda>authCfg. authCfg\<lparr>ac_Name := name\<rparr>) (cfg_AuthConfigs c3 name))\<rparr>)"

definition ReplaceConfig :: "Config \<Rightarrow> Config option \<Rightarrow> cfg_error option \<times> Config" where
  "ReplaceConfig cfg newCfg =
     (case newCfg of
        None \<Rightarrow> (Some ConfigNil, cfg)
      | Some c \<Rightarrow> (None, normalizeIncomingRoutes (normalizeEndpoints (replaceDefaults c))))"

text \<open>\<open>Manager.Validate\<close>: the loop keeps the names seen so far.\<close>

fun validateEndpointsLoop :: "Endpoint list \<Rightarrow> string list \<Rightarrow> verr list \<Rightarrow> verr list" where
  "validateEndpointsLoop [] seen errs = errs"
| "validateEndpointsLoop (ep # eps) seen errs =
     validateEndpointsLoop eps (ep_Name ep # seen)
       ((if ep_Name ep \<in> set seen then errs @ [DuplicateEndpointName (ep_Name ep)] else errs)
        @ Endpoint_Validate ep)"

definition Manager_Validate :: "Config \<Rightarrow> verr list" where
  "Manager_Validate cfg =
     validateEndpointsLoop (cfg_Endpoints cfg) []
       ((if cfg_GlobalMultiplier cfg < 0 then [GlobalMultiplierNegative] else []) @
        (if cfg_ConcurrentRequests cfg \<le> 0 then [ConcurrentRequestsNotPositive] else []) @
        (if cfg_Endpoints cfg = [] then [NoEndpoints] else []))"

text \<open>The configuration \<open>NewManager\<close> starts from.\<close>

definition NewManager :: Config where
  "NewManager =
     \<lparr>cfg_Enabled = True, cfg_GlobalMultiplier = 1, cfg_ConcurrentRequests = 30,
      cfg_LogAllRequests = False, cfg_APIPort = 8080, cfg_AuthConfigs = Map.empty,
      cfg_Endpoints = [], cfg_IncomingEnabled = True, cfg_IncomingRoutes = []\<rparr>"

text \<open>
  Full replacement as \<open>handleImportConfig\<close> performs it on a decoded configuration:
  \<open>ReplaceConfig\<close> on a scratch manager, \<open>Validate\<close> there, and only then \<open>ReplaceConfig\<close>
  on the live store, with the struct the scratch call has already rewritten.
\<close>

definition importConfig :: "Config \<Rightarrow> Config \<Rightarrow> cfg_error option \<times> Config" where
  "importConfig cfg newCfg =
     (case ReplaceConfig NewManager (Some newCfg) of
        (Some err, scratch) \<Rightarrow> (Some err, cfg)
      | (None, scratch) \<Rightarrow>
          if Manager_Validate scratch \<noteq> []
          then (Some (ValidationFailed (Manager_Validate scratch)), cfg)
          else ReplaceConfig cfg (Some scratch))"

subsection \<open>Route matching (Manager.MatchIncomingRoute)\<close>

text \<open>What \<open>route.Clone()\<close> returns is value-equal to the route.\<close>

definition Clone :: "IncomingEndpoint \<Rightarrow> IncomingEndpoint" where
  "Clone e = e"

text \<open>The loop over \<open>sortedRoutes\<close>.\<close>

fun matchLoop ::
  "IncomingEndpoint list \<Rightarrow> string \<Rightarrow> string \<Rightarrow> (IncomingEndpoint \<times> string) option" where
  "matchLoop [] path method = None"
| "matchLoop (route # rest) path method =
     (if \<not> ie_Enabled route then matchLoop rest path method
      else if ie_Method route \<noteq> ''*'' \<and> ie_Method route \<noteq> method then matchLoop rest path method
      else if HasPrefix path (ie_Path route) then
        (let suffix = TrimPrefix path (ie_Path route)
         in if suffix = [] \<or> HasPrefix suffix ''/'' then Some (Clone route, suffix)
            else matchLoop rest path method)
      else matchLoop rest path method)"

text \<open>
  \<open>sort.Slice\<close> with \<open>less(i, j) = len(path i) > len(path j)\<close> is not a stable sort: all it
  promises is a permutation in which path lengths never increase. \<open>sortSliceResult\<close> is that
  promise; \<open>sortRoutes\<close> is one sort that keeps it (a stable insertion sort).
\<close>

definition sortSliceResult :: "IncomingEndpoint list \<Rightarrow> IncomingEndpoint list \<Rightarrow> bool" where
  "sortSliceResult routes sortedRoutes \<longleftrightarrow>
     mset sortedRoutes = mset routes \<and>
     sorted_wrt (\<lambda>a b. length (ie_Path b) \<le> length (ie_Path a)) sortedRoutes"

definition sortRoutes :: "IncomingEndpoint list \<Rightarrow> IncomingEndpoint list" where
  "sortRoutes routes = sort_key (\<lambda>r. - int (length (ie_Path r))) routes"

text \<open>\<open>MatchIncomingRoute\<close>, given the order \<open>sort.Slice\<close> left the copy in.\<close>

definition MatchIncomingRouteFrom ::
  "IncomingEndpoint list \<Rightarrow> Config \<Rightarrow> string \<Rightarrow> string \<Rightarrow> (IncomingEndpoint \<times> string) option"
  where
  "MatchIncomingRouteFrom sortedRoutes cfg path method =
     (if \<not> cfg_IncomingEnabled cfg then None else matchLoop sortedRoutes path method)"

definition MatchIncomingRoute ::
  "Config \<Rightarrow> string \<Rightarrow> string \<Rightarrow> (IncomingEndpoint \<times> string) option" where
  "MatchIncomingRoute cfg path method =
     MatchIncomingRouteFrom (sortRoutes (cfg_IncomingRoutes cfg)) cfg path method"

text \<open>The four conditions under which a route matches a request.\<close>

definition routeMatches :: "IncomingEndpoint \<Rightarrow> string \<Rightarrow> string \<Rightarrow> bool" where
  "routeMatches route path method \<longleftrightarrow>
     ie_Enabled route \<and>
     (ie_Method route = ''*'' \<or> ie_Method route = method) \<and>
     HasPrefix path (ie_Path route) \<and>
     (path = ie_Path route \<or> HasPrefix (drop (length (ie_Path route)) path) ''/'')"

section \<open>Weighted response selection (internal/api/incoming_handler.go)\<close>

text \<open>
  The random source is a stream \<open>rnd\<close> of the values \<open>rand.Float64()\<close> returns, read at a
  position that each call advances: the function returns the response and the position
  it leaves, so a call that does not draw leaves the position where it was.
\<close>

definition fallbackResponse :: IncomingResponseConfig where
  "fallbackResponse =
     \<lparr>rc_StatusCode = 500, rc_Share = 1, rc_MinResponseMs = 0, rc_MaxResponseMs = 0\<rparr>"

fun cumulativeLoop ::
  "IncomingResponseConfig list \<Rightarrow> real \<Rightarrow> real \<Rightarrow> IncomingResponseConfig \<Rightarrow> IncomingResponseConfig"
  where
  "cumulativeLoop [] randVal cumulative lastResp = lastResp"
| "cumulativeLoop (resp # rest) randVal cumulative lastResp =
     (if randVal < cumulative + rc_Share resp then resp
      else cumulativeLoop rest randVal (cumulative + rc_Share resp) lastResp)"

definition selectWeightedResponse ::
  "(nat \<Rightarrow> real) \<Rightarrow> nat \<Rightarrow> IncomingResponseConfig list \<Rightarrow> IncomingResponseConfig \<times> nat" where
  "selectWeightedResponse rnd pos responses =
     (if length responses = 0 then (fallbackResponse, pos)
      else if length responses = 1 then (responses ! 0, pos)
      else (cumulativeLoop responses (rnd pos) 0 (responses ! (length responses - 1)), Suc pos))"

section \<open>Token manager (internal/client/token_manager.go)\<close>

text \<open>
  A \<open>time.Time\<close> is an instant in nanoseconds (an \<open>int\<close>); a \<open>time.Duration\<close> is a 64-bit
  count of nanoseconds, so \<open>time.Duration(n) * time.Second\<close> wraps. \<open>ErrorCount\<close> is a Go
  \<open>int\<close>, 64 bits wide on the 64-bit targets, so \<open>ErrorCount++\<close> wraps as well.
\<close>

type_synonym instant = int

definition durationSeconds :: "int \<Rightarrow> int" where
  "durationSeconds n = sint (word_of_int n * 1000000000 :: 64 word)"

datatype tm_error =
    TokenAuthConfigNotFound string
  | ContextDone
  | FetchFailed string
  | RefreshFailedAfterRetries "tm_error option"

record ManagedToken =
  mt_Value :: string
  mt_ExpiresAt :: instant
  mt_RefreshAt :: instant
  mt_LastRefresh :: instant
  mt_LastError :: "tm_error option"
  mt_ErrorCount :: "64 word"

record TokenManager =
  tm_tokens :: "string \<rightharpoonup> ManagedToken"
  tm_authConfigs :: "string \<rightharpoonup> AuthConfig"
  tm_envGetter :: "string \<Rightarrow> string"

text \<open>
  What one pass of the retry loop meets: whether the \<open>select\<close> before the attempt took the
  \<open>ctx.Done()\<close> branch (not consulted for attempt 0, which does not wait), what
  \<open>fetchToken\<close> returned (the HTTP exchange is outside the model), and the clock reading
  \<open>time.Now()\<close> stored as \<open>LastRefresh\<close> on success.
\<close>

record attempt_obs =
  ao_ctxDone :: bool
  ao_fetch :: "tm_error + (string \<times> instant)"
  ao_now :: instant

datatype loop_exit =
    Cancelled
  | Fetched string instant instant
  | AllFailed "tm_error option"

text \<open>
  \<open>for attempt := 0; attempt <= 3; attempt++\<close>: \<open>left\<close> counts the passes still allowed,
  \<open>lastErr\<close> is the variable of that name.
\<close>

fun refreshAttempts ::
  "(nat \<Rightarrow> attempt_obs) \<Rightarrow> nat \<Rightarrow> nat \<Rightarrow> tm_error option \<Rightarrow> loop_exit" where
  "refreshAttempts obs attempt 0 lastErr = AllFailed lastErr"
| "refreshAttempts obs attempt (Suc left) lastErr =
     (if attempt > 0 \<and> ao_ctxDone (obs attempt) then Cancelled
      else case ao_fetch (obs attempt) of
             Inr (tokenValue, expiresAt) \<Rightarrow> Fetched tokenValue expiresAt (ao_now (obs attempt))
           | Inl err \<Rightarrow> refreshAttempts obs (Suc attempt) left (Some err))"

text \<open>\<open>now\<close> is the clock reading of the freshness re-check at the top of \<open>refreshToken\<close>.\<close>

definition refreshToken ::
  "TokenManager \<Rightarrow> string \<Rightarrow> AuthConfig \<Rightarrow> instant \<Rightarrow> (nat \<Rightarrow> attempt_obs)
     \<Rightarrow> (string \<times> tm_error option) \<times> TokenManager" where
  "refreshToken tm authName cfg now obs =
     (case (case tm_tokens tm authName of
              Some token \<Rightarrow> if now < mt_RefreshAt token then Some (mt_Value token) else None
            | None \<Rightarrow> None) of
        Some v \<Rightarrow> ((v, None), tm)
      | None \<Rightarrow>
          (case refreshAttempts obs 0 4 None of
             Cancelled \<Rightarrow> (([], Some ContextDone), tm)
           | Fetched tokenValue expiresAt stored \<Rightarrow>
               (let d = durationSeconds (ac_RefreshBeforeExpiry cfg);
                    refreshBeforeExpiry = (if d = 0 then 60 * 1000000000 else d);
                    newToken = \<lparr>mt_Value = tokenValue, mt_ExpiresAt = expiresAt,
                                mt_RefreshAt = expiresAt - refreshBeforeExpiry,
                                mt_LastRefresh = stored, mt_LastError = None,
                                mt_ErrorCount = 0\<rparr>
                in ((tokenValue, None), tm\<lparr>tm_tokens := (tm_tokens tm)(authName \<mapsto> newToken)\<rparr>))
           | AllFailed lastErr \<Rightarrow>
               (case tm_tokens tm authName of
                  Some existingToken \<Rightarrow>
                    ((mt_Value existingToken, None),
                     tm\<lparr>tm_tokens := (tm_tokens tm)(authName \<mapsto>
                          existingToken\<lparr>mt_LastError := lastErr,
                                         mt_ErrorCount := mt_ErrorCount existingToken + 1\<rparr>)\<rparr>)
                | None \<Rightarrow> (([], Some (RefreshFailedAfterRetries lastErr)), tm))))"

text \<open>
  \<open>GetToken\<close> reads the clock once (\<open>now1\<close>) and, when it refreshes, \<open>refreshToken\<close> reads
  it again (\<open>now2\<close>).
\<close>

definition GetToken ::
  "TokenManager \<Rightarrow> string \<Rightarrow> instant \<Rightarrow> instant \<Rightarrow> (nat \<Rightarrow> attempt_obs)
     \<Rightarrow> (string \<times> tm_error option) \<times> TokenManager" where
  "GetToken tm authName now1 now2 obs =
     (case tm_authConfigs tm authName of
        None \<Rightarrow> (([], Some (TokenAuthConfigNotFound authName)), tm)
      | Some authCfg \<Rightarrow>
          if ac_TokenEndpoint authCfg = None then
            (if ac_EnvVar authCfg = [] then (([], None), tm)
             else ((tm_envGetter tm (ac_EnvVar authCfg), None), tm))
          else (case tm_tokens tm authName of
                  None \<Rightarrow> refreshToken tm authName authCfg now2 obs
                | Some token \<Rightarrow>
                    if mt_RefreshAt token < now1 then refreshToken tm authName authCfg now2 obs
                    else ((mt_Value token, None), tm)))"

section \<open>Scheduler dispatch and control (internal/scheduler)\<close>

record RequestResult =
  rr_EndpointName :: string
  rr_URL :: string
  rr_Method :: string
  rr_StatusCode :: int
  rr_Success :: bool
  rr_Error :: string
  rr_ErrorType :: string
  rr_TotalTimeMs :: real
  rr_DNSTimeMs :: real
  rr_ConnectTimeMs :: real
  rr_TLSTimeMs :: real
  rr_TimeToFirstByte :: real
  rr_Hostname :: string
  rr_ResponseSize :: "64 word"
  rr_RequestTimestamp :: instant

text \<open>
  The shared state a dispatch goroutine and the control operations touch: the atomic
  \<open>paused\<close> flag, whether \<open>s.ctx\<close> has been cancelled, whether \<open>cancelFunc\<close> is set, the
  counters, the configuration store behind \<open>configManager\<close>, and the result handler,
  represented by whether it is set and by the arguments it has been called with.
\<close>

record Scheduler =
  s_paused :: "32 word"
  s_ctxCancelled :: bool
  s_hasCancelFunc :: bool
  s_requestsScheduled :: "64 word"
  s_requestsInFlight :: "64 word"
  s_requestsSkipped :: "64 word"
  s_configManager :: Config
  s_hasResultHandler :: bool
  s_handled :: "RequestResult option list"

definition IsPaused :: "Scheduler \<Rightarrow> bool" where
  "IsPaused s \<longleftrightarrow> s_paused s = 1"

definition IsEnabled :: "Config \<Rightarrow> bool" where
  "IsEnabled cfg = cfg_Enabled cfg"

definition SetEnabled :: "Config \<Rightarrow> bool \<Rightarrow> Config" where
  "SetEnabled cfg enabled = cfg\<lparr>cfg_Enabled := enabled\<rparr>"

definition IsEndpointEnabled :: "Config \<Rightarrow> string \<Rightarrow> cfg_error + bool" where
  "IsEndpointEnabled cfg name =
     (case find (\<lambda>ep. ep_Name ep = name) (cfg_Endpoints cfg) of
        Some ep \<Rightarrow> Inr (ep_Enabled ep)
      | None \<Rightarrow> Inl (EndpointNotFound name))"

definition EmergencyStop :: "Scheduler \<Rightarrow> Scheduler" where
  "EmergencyStop s =
     (let s1 = s\<lparr>s_paused := 1\<rparr>;
          s2 = (if s_hasCancelFunc s1 then s1\<lparr>s_ctxCancelled := True\<rparr> else s1)
      in s2\<lparr>s_configManager := SetEnabled (s_configManager s2) False\<rparr>)"

definition Pause :: "Scheduler \<Rightarrow> Scheduler" where
  "Pause s = (s\<lparr>s_paused := 1\<rparr>)\<lparr>s_configManager := SetEnabled (s_configManager s) False\<rparr>"

text \<open>
  \<open>executeRequest\<close> reads the shared state at three places, with an unbounded wait between
  them (the semaphore, then the HTTP exchange). Each place is one step on the state as it is
  at that moment; a step either gives up (\<open>Skip\<close>) or goes on (\<open>Proceed\<close>).
\<close>

datatype phase = Skip Scheduler | Proceed Scheduler

definition skipRequest :: "Scheduler \<Rightarrow> Scheduler" where
  "skipRequest s = s\<lparr>s_requestsSkipped := s_requestsSkipped s + 1\<rparr>"

definition preCheck :: "Scheduler \<Rightarrow> phase" where
  "preCheck s =
     (if IsPaused s \<or> \<not> IsEnabled (s_configManager s) then Skip (skipRequest s) else Proceed s)"

text \<open>\<open>acquired\<close>: the \<open>select\<close> took the semaphore branch rather than \<open>s.ctx.Done()\<close>.\<close>

definition afterAcquire :: "Scheduler \<Rightarrow> bool \<Rightarrow> Endpoint \<Rightarrow> phase" where
  "afterAcquire s acquired endpoint =
     (if \<not> acquired then Skip (skipRequest s)
      else if IsPaused s \<or> \<not> IsEnabled (s_configManager s) then Skip (skipRequest s)
      else case IsEndpointEnabled (s_configManager s) (ep_Name endpoint) of
             Inl err \<Rightarrow> Skip (skipRequest s)
           | Inr enabled \<Rightarrow>
               if \<not> enabled then Skip (skipRequest s)
               else Proceed (s\<lparr>s_requestsInFlight := s_requestsInFlight s + 1\<rparr>))"

text \<open>The rewrite of the result \<open>client.Execute\<close> returned (a pointer, \<open>None\<close> when nil).\<close>

definition rewriteCancelled :: "Scheduler \<Rightarrow> RequestResult option \<Rightarrow> RequestResult option" where
  "rewriteCancelled s result =
     (case result of
        None \<Rightarrow> None
      | Some r \<Rightarrow>
          if rr_ErrorType r = ''cancelled'' \<and> \<not> IsPaused s \<and> IsEnabled (s_configManager s)
          then Some (r\<lparr>rr_ErrorType := ''timeout'', rr_Error := ''Request timeout''\<rparr>)
          else Some r)"

definition completeRequest :: "Scheduler \<Rightarrow> RequestResult option \<Rightarrow> Scheduler" where
  "completeRequest s result =
     (let result' = rewriteCancelled s result;
          s1 = (if s_hasResultHandler s then s\<lparr>s_handled := s_handled s @ [result']\<rparr> else s)
      in s1\<lparr>s_requestsInFlight := s_requestsInFlight s1 - 1\<rparr>)"

text \<open>
  One whole dispatch. \<open>duringWait\<close> and \<open>duringExecute\<close> are what the other goroutines
  (control operations, other dispatches) do to the shared state while this one waits for
  the semaphore and for the HTTP exchange; \<open>result\<close> is what \<open>client.Execute\<close> returns.
\<close>

definition executeRequest ::
  "Scheduler \<Rightarrow> Endpoint \<Rightarrow> (Scheduler \<Rightarrow> Scheduler) \<Rightarrow> bool \<Rightarrow> (Scheduler \<Rightarrow> Scheduler)
     \<Rightarrow> RequestResult option \<Rightarrow> Scheduler" where
  "executeRequest s endpoint duringWait acquired duringExecute result =
     (case preCheck s of
        Skip s1 \<Rightarrow> s1
      | Proceed s1 \<Rightarrow>
          (case afterAcquire (duringWait s1) acquired endpoint of
             Skip s2 \<Rightarrow> s2
           | Proceed s2 \<Rightarrow> completeRequest (duringExecute s2) result))"

section \<open>Endpoint metrics (internal/metrics)\<close>

text \<open>
  The \<open>int64\<close> counters are 64-bit words, so \<open>++\<close> wraps. \<open>LastSuccess\<close> is \<open>None\<close> for the
  zero \<open>time.Time\<close>.
\<close>

record EndpointMetrics =
  em_TotalRequests :: "64 word"
  em_Successful :: "64 word"
  em_Failed :: "64 word"
  em_TimeoutErrors :: "64 word"
  em_DNSErrors :: "64 word"
  em_ConnectionErrors :: "64 word"
  em_HTTPErrors :: "64 word"
  em_OtherErrors :: "64 word"
  em_TotalTimeMs :: real
  em_TotalDNSTimeMs :: real
  em_TotalConnectMs :: real
  em_ResponseTimes :: RingBuffer
  em_DNSTimes :: RingBuffer
  em_LastStatusCode :: int
  em_LastError :: string
  em_LastSuccess :: "instant option"
  em_URLPattern :: string
  em_Hostname :: string

definition NewEndpointMetrics :: "string \<Rightarrow> string \<Rightarrow> panic + EndpointMetrics" where
  "NewEndpointMetrics urlPattern hostname =
     (case NewRingBuffer 1000 of
        Inl e \<Rightarrow> Inl e
      | Inr responseTimes \<Rightarrow>
          (case NewRingBuffer 1000 of
             Inl e \<Rightarrow> Inl e
           | Inr dnsTimes \<Rightarrow>
               Inr \<lparr>em_TotalRequests = 0, em_Successful = 0, em_Failed = 0,
                    em_TimeoutErrors = 0, em_DNSErrors = 0, em_ConnectionErrors = 0,
                    em_HTTPErrors = 0, em_OtherErrors = 0,
                    em_TotalTimeMs = 0, em_TotalDNSTimeMs = 0, em_TotalConnectMs = 0,
                    em_ResponseTimes = responseTimes, em_DNSTimes = dnsTimes,
                    em_LastStatusCode = 0, em_LastError = [], em_LastSuccess = None,
                    em_URLPattern = urlPattern, em_Hostname = hostname\<rparr>))"

text \<open>The two \<open>Add\<close> calls that end the shared part of \<open>RecordSuccess\<close> and \<open>RecordFailure\<close>.\<close>

definition addTimes :: "EndpointMetrics \<Rightarrow> real \<Rightarrow> real \<Rightarrow> panic + EndpointMetrics" where
  "addTimes em totalTimeMs dnsTimeMs =
     (case Add (em_ResponseTimes em) totalTimeMs of
        Inl e \<Rightarrow> Inl e
      | Inr rt \<Rightarrow>
          if dnsTimeMs > 0 then
            (case Add (em_DNSTimes em) dnsTimeMs of
               Inl e \<Rightarrow> Inl e
             | Inr dt \<Rightarrow> Inr (em\<lparr>em_ResponseTimes := rt, em_DNSTimes := dt\<rparr>))
          else Inr (em\<lparr>em_ResponseTimes := rt\<rparr>))"

definition RecordSuccess ::
  "EndpointMetrics \<Rightarrow> instant \<Rightarrow> real \<Rightarrow> real \<Rightarrow> real \<Rightarrow> int \<Rightarrow> panic + EndpointMetrics" where
  "RecordSuccess em now totalTimeMs dnsTimeMs connectTimeMs statusCode =
     addTimes
       (em\<lparr>em_TotalRequests := em_TotalRequests em + 1,
           em_Successful := em_Successful em + 1,
           em_LastStatusCode := statusCode,
           em_LastSuccess := Some now,
           em_TotalTimeMs := em_TotalTimeMs em + totalTimeMs,
           em_TotalDNSTimeMs := em_TotalDNSTimeMs em + dnsTimeMs,
           em_TotalConnectMs := em_TotalConnectMs em + connectTimeMs\<rparr>)
       totalTimeMs dnsTimeMs"

definition categorize :: "EndpointMetrics \<Rightarrow> string \<Rightarrow> EndpointMetrics" where
  "categorize em errorType =
     (if errorType = ''timeout'' then em\<lparr>em_TimeoutErrors := em_TimeoutErrors em + 1\<rparr>
      else if errorType = ''dns'' then em\<lparr>em_DNSErrors := em_DNSErrors em + 1\<rparr>
      else if errorType = ''connection'' then em\<lparr>em_ConnectionErrors := em_ConnectionErrors em + 1\<rparr>
      else if errorType = ''http'' then em\<lparr>em_HTTPErrors := em_HTTPErrors em + 1\<rparr>
      else em\<lparr>em_OtherErrors := em_OtherErrors em + 1\<rparr>)"

definition RecordFailure ::
  "EndpointMetrics \<Rightarrow> real \<Rightarrow> real \<Rightarrow> real \<Rightarrow> int \<Rightarrow> string \<Rightarrow> string \<Rightarrow> panic + EndpointMetrics"
  where
  "RecordFailure em totalTimeMs dnsTimeMs connectTimeMs statusCode errorType errorMsg =
     (case addTimes
             (em\<lparr>em_TotalRequests := em_TotalRequests em + 1,
                 em_Failed := em_Failed em + 1,
                 em_LastStatusCode := statusCode,
                 em_LastError := errorMsg,
                 em_TotalTimeMs := em_TotalTimeMs em + totalTimeMs,
                 em_TotalDNSTimeMs := em_TotalDNSTimeMs em + dnsTimeMs,
                 em_TotalConnectMs := em_TotalConnectMs em + connectTimeMs\<rparr>)
             totalTimeMs dnsTimeMs of
        Inl e \<Rightarrow> Inl e
      | Inr em' \<Rightarrow> Inr (categorize em' errorType))"

definition Reset_em :: "EndpointMetrics \<Rightarrow> EndpointMetrics" where
  "Reset_em em =
     em\<lparr>em_TotalRequests := 0, em_Successful := 0, em_Failed := 0,
        em_TimeoutErrors := 0, em_DNSErrors := 0, em_ConnectionErrors := 0,
        em_HTTPErrors := 0, em_OtherErrors := 0,
        em_TotalTimeMs := 0, em_TotalDNSTimeMs := 0, em_TotalConnectMs := 0,
        em_LastStatusCode := 0, em_LastError := [], em_LastSuccess := None,
        em_ResponseTimes := Reset (em_ResponseTimes em),
        em_DNSTimes := Reset (em_DNSTimes em)\<rparr>"

text \<open>
  \<open>GetStats\<close>. \<open>float64(n)\<close> of a counter is the value of its signed reading;
  \<open>formatTime\<close> stands for \<open>Format(time.RFC3339)\<close>.
\<close>

record EndpointSnapshot =
  snap_TotalRequests :: "64 word"
  snap_Successful :: "64 word"
  snap_Failed :: "64 word"
  snap_SuccessRate :: real
  snap_TimeoutErrors :: "64 word"
  snap_DNSErrors :: "64 word"
  snap_ConnectionErrors :: "64 word"
  snap_HTTPErrors :: "64 word"
  snap_OtherErrors :: "64 word"
  snap_AvgTotalTimeMs :: real
  snap_AvgDNSTimeMs :: real
  snap_AvgConnectTimeMs :: real
  snap_P95TotalTimeMs :: real
  snap_P99TotalTimeMs :: real
  snap_MaxTotalTimeMs :: real
  snap_P95DNSTimeMs :: real
  snap_LastStatusCode :: int
  snap_LastError :: string
  snap_LastSuccess :: string
  snap_URLPattern :: string
  snap_Hostname :: string

definition float64_of_int64 :: "64 word \<Rightarrow> real" where
  "float64_of_int64 n = real_of_int (sint n)"

definition GetStats :: "(instant \<Rightarrow> string) \<Rightarrow> EndpointMetrics \<Rightarrow> panic + EndpointSnapshot" where
  "GetStats formatTime em =
     (let total = float64_of_int64 (em_TotalRequests em);
          has = (0 <s em_TotalRequests em);
          snap = \<lparr>snap_TotalRequests = em_TotalRequests em,
                  snap_Successful = em_Successful em,
                  snap_Failed = em_Failed em,
                  snap_SuccessRate =
                    (if has then float64_of_int64 (em_Successful em) / total * 100 else 0),
                  snap_TimeoutErrors = em_TimeoutErrors em,
                  snap_DNSErrors = em_DNSErrors em,
                  snap_ConnectionErrors = em_ConnectionErrors em,
                  snap_HTTPErrors = em_HTTPErrors em,
                  snap_OtherErrors = em_OtherErrors em,
                  snap_AvgTotalTimeMs = (if has then em_TotalTimeMs em / total else 0),
                  snap_AvgDNSTimeMs =
                    (if has \<and> em_TotalDNSTimeMs em > 0 then em_TotalDNSTimeMs em / total else 0),
                  snap_AvgConnectTimeMs =
                    (if has \<and> em_TotalConnectMs em > 0 then em_TotalConnectMs em / total else 0),
                  snap_P95TotalTimeMs = 0, snap_P99TotalTimeMs = 0,
                  snap_MaxTotalTimeMs = 0, snap_P95DNSTimeMs = 0,
                  snap_LastStatusCode = em_LastStatusCode em,
                  snap_LastError = em_LastError em,
                  snap_LastSuccess =
                    (case em_LastSuccess em of None \<Rightarrow> [] | Some t \<Rightarrow> formatTime t),
                  snap_URLPattern = em_URLPattern em,
                  snap_Hostname = em_Hostname em\<rparr>
      in case Percentile (em_ResponseTimes em) 95 of
           Inl e \<Rightarrow> Inl e
         | Inr p95 \<Rightarrow>
        (case Percentile (em_ResponseTimes em) 99 of
           Inl e \<Rightarrow> Inl e
         | Inr p99 \<Rightarrow>
        (case Max_rb (em_ResponseTimes em) of
           Inl e \<Rightarrow> Inl e
         | Inr mx \<Rightarrow>
        (case Percentile (em_DNSTimes em) 95 of
           Inl e \<Rightarrow> Inl e
         | Inr d95 \<Rightarrow>
             Inr (snap\<lparr>snap_P95TotalTimeMs := p95, snap_P99TotalTimeMs := p99,
                       snap_MaxTotalTimeMs := mx, snap_P95DNSTimeMs := d95\<rparr>)))))"

text \<open>
  The states of an \<open>EndpointMetrics\<close> record: a new record, then any run of
  \<open>RecordSuccess\<close>, \<open>RecordFailure\<close> and \<open>Reset\<close>.
\<close>

inductive reachable_em :: "EndpointMetrics \<Rightarrow> bool" where
  em_new: "NewEndpointMetrics urlPattern hostname = Inr em \<Longrightarrow> reachable_em em"
| em_success:
    "reachable_em em \<Longrightarrow>
     RecordSuccess em now totalTimeMs dnsTimeMs connectTimeMs statusCode = Inr em' \<Longrightarrow>
     reachable_em em'"
| em_failure:
    "reachable_em em \<Longrightarrow>
     RecordFailure em totalTimeMs dnsTimeMs connectTimeMs statusCode errorType errorMsg = Inr em' \<Longrightarrow>
     reachable_em em'"
| em_reset: "reachable_em em \<Longrightarrow> reachable_em (Reset_em em)"

text \<open>The invariant of the reachable states, used by the proofs below.\<close>

definition em_inv :: "EndpointMetrics \<Rightarrow> bool" where
  "em_inv em \<longleftrightarrow>
     em_Successful em + em_Failed em = em_TotalRequests em \<and>
     rb_ok (em_ResponseTimes em) \<and> capacity (em_ResponseTimes em) = 1000 \<and>
     rb_ok (em_DNSTimes em) \<and> capacity (em_DNSTimes em) = 1000"


section \<open>Concrete values for the worked instances\<close>



definition auth_a :: AuthConfig where
  "auth_a = AuthConfig_zero\<lparr>ac_Name := ''a'', ac_Type := ''bearer'', ac_EnvVar := ''TOKEN''\<rparr>"

definition auth_bad :: AuthConfig where
  "auth_bad = AuthConfig_zero\<lparr>ac_Name := ''b'', ac_Type := ''bogus''\<rparr>"

definition store_a :: Config where
  "store_a = NewManager\<lparr>cfg_AuthConfigs := [''a'' \<mapsto> auth_a]\<rparr>"

definition ep_inline :: Endpoint where
  "ep_inline =
     \<lparr>ep_Name = ''e'', ep_Method = ''GET'', ep_URLTemplate = ''http://localhost/x'',
      ep_ConfigPath = [], ep_FrequencyPerMin = 60,
      ep_Auth = JObj [(''ref'', JString ''a'')], ep_ResolvedAuth = None,
      ep_Headers = Map.empty, ep_Body = JNull, ep_Timeout = 5,
      ep_Enabled = True, ep_EnabledSet = True\<rparr>"

definition store_inline :: Config where
  "store_inline = store_a\<lparr>cfg_Endpoints := [ep_inline\<lparr>ep_ResolvedAuth := Some auth_a\<rparr>]\<rparr>"

definition route_a :: IncomingEndpoint where
  "route_a = \<lparr>ie_Name = ''ra'', ie_Path = ''/a'', ie_Method = ''*'',
              ie_Responses = [\<lparr>rc_StatusCode = 204, rc_Share = 1, rc_MinResponseMs = 0, rc_MaxResponseMs = 0\<rparr>],
              ie_Enabled = True, ie_EnabledSet = True\<rparr>"

definition route_ab :: IncomingEndpoint where
  "route_ab = \<lparr>ie_Name = ''rab'', ie_Path = ''/a/b'', ie_Method = ''GET'',
              ie_Responses = [\<lparr>rc_StatusCode = 200, rc_Share = 1, rc_MinResponseMs = 0, rc_MaxResponseMs = 0\<rparr>],
              ie_Enabled = True, ie_EnabledSet = True\<rparr>"

definition store_routes :: Config where
  "store_routes = NewManager\<lparr>cfg_IncomingRoutes := [route_a, route_ab]\<rparr>"

definition te_a :: TokenEndpointConfig where
  "te_a = \<lparr>te_URL = ''http://localhost/token'', te_URLEnv = [], te_Method = ''POST'',
           te_UsernameEnv = [], te_PasswordEnv = [], te_Headers = Map.empty, te_Body = JNull,
           te_TokenPath = ''access_token'', te_ExpiresPath = ''expires_in''\<rparr>"

definition auth_tok :: AuthConfig where
  "auth_tok = AuthConfig_zero\<lparr>ac_Name := ''a'', ac_Type := ''bearer'', ac_TokenEndpoint := Some te_a\<rparr>"

definition tok_T1 :: ManagedToken where
  "tok_T1 = \<lparr>mt_Value = ''T1'', mt_ExpiresAt = 60000000000, mt_RefreshAt = 0,
             mt_LastRefresh = 0, mt_LastError = None, mt_ErrorCount = 0\<rparr>"

definition tm_T1 :: TokenManager where
  "tm_T1 = \<lparr>tm_tokens = [''a'' \<mapsto> tok_T1], tm_authConfigs = [''a'' \<mapsto> auth_tok],
            tm_envGetter = (\<lambda>k. [])\<rparr>"

definition tm_empty :: TokenManager where
  "tm_empty = \<lparr>tm_tokens = Map.empty, tm_authConfigs = [''a'' \<mapsto> auth_tok],
               tm_envGetter = (\<lambda>k. [])\<rparr>"

definition obs_500 :: "nat \<Rightarrow> attempt_obs" where
  "obs_500 i = \<lparr>ao_ctxDone = False, ao_fetch = Inl (FetchFailed ''token endpoint returned status 500''),
                ao_now = 0\<rparr>"

definition obs_T1 :: "nat \<Rightarrow> attempt_obs" where
  "obs_T1 i = \<lparr>ao_ctxDone = False, ao_fetch = Inr (''T1'', 60000000000), ao_now = 0\<rparr>"

definition obs_cut :: "nat \<Rightarrow> attempt_obs" where
  "obs_cut i = \<lparr>ao_ctxDone = (0 < i),
                ao_fetch = Inl (FetchFailed ''token endpoint returned status 500''), ao_now = 0\<rparr>"

definition rb_fresh :: RingBuffer where
  "rb_fresh = \<lparr>data = replicate 1000 0, capacity = 1000, index = 0, rbsize = 0\<rparr>"

definition em_fresh :: EndpointMetrics where
  "em_fresh =
     \<lparr>em_TotalRequests = 0, em_Successful = 0, em_Failed = 0,
      em_TimeoutErrors = 0, em_DNSErrors = 0, em_ConnectionErrors = 0,
      em_HTTPErrors = 0, em_OtherErrors = 0,
      em_TotalTimeMs = 0, em_TotalDNSTimeMs = 0, em_TotalConnectMs = 0,
      em_ResponseTimes = rb_fresh, em_DNSTimes = rb_fresh,
      em_LastStatusCode = 0, em_LastError = [], em_LastSuccess = None,
      em_URLPattern = ''http://localhost/x'', em_Hostname = ''localhost''\<rparr>"

definition em_one :: EndpointMetrics where
  "em_one =
     em_fresh\<lparr>em_TotalRequests := 1, em_Successful := 1, em_LastStatusCode := 200,
              em_LastSuccess := Some 7, em_TotalTimeMs := 12,
              em_ResponseTimes :=
                \<lparr>data = (replicate 1000 0)[0 := 12], capacity = 1000, index = 1, rbsize = 1\<rparr>\<rparr>"

definition em_two :: EndpointMetrics where
  "em_two =
     em_one\<lparr>em_TotalRequests := 2, em_Failed := 1, em_LastStatusCode := 500,
            em_LastError := ''HTTP 500'', em_TotalTimeMs := 42, em_HTTPErrors := 1,
            em_ResponseTimes :=
              \<lparr>data = ((replicate 1000 0)[0 := 12])[1 := 30], capacity = 1000, index = 2,
               rbsize = 2\<rparr>\<rparr>"

definition ep_plain :: Endpoint where
  "ep_plain =
     \<lparr>ep_Name = ''e'', ep_Method = ''GET'', ep_URLTemplate = ''http://localhost/x'',
      ep_ConfigPath = [], ep_FrequencyPerMin = 60,
      ep_Auth = JString ''none'', ep_ResolvedAuth = Some authNone,
      ep_Headers = Map.empty, ep_Body = JNull, ep_Timeout = 5,
      ep_Enabled = True, ep_EnabledSet = True\<rparr>"

definition sched_running :: Scheduler where
  "sched_running =
     \<lparr>s_paused = 0, s_ctxCancelled = False, s_hasCancelFunc = True,
      s_requestsScheduled = 1, s_requestsInFlight = 0, s_requestsSkipped = 0,
      s_configManager = NewManager\<lparr>cfg_Endpoints := [ep_plain]\<rparr>,
      s_hasResultHandler = True, s_handled = []\<rparr>"

definition result_cancelled :: RequestResult where
  "result_cancelled =
     \<lparr>rr_EndpointName = ''e'', rr_URL = ''http://localhost/x'', rr_Method = ''GET'',
      rr_StatusCode = 0, rr_Success = False, rr_Error = ''context canceled'',
      rr_ErrorType = ''cancelled'', rr_TotalTimeMs = 100, rr_DNSTimeMs = 0,
      rr_ConnectTimeMs = 0, rr_TLSTimeMs = 0, rr_TimeToFirstByte = 0,
      rr_Hostname = ''localhost'', rr_ResponseSize = 0, rr_RequestTimestamp = 0\<rparr>"


section \<open>Ring buffer: proofs\<close>


lemma smod_nonneg_pos: "0 \<le> a \<Longrightarrow> 0 < b \<Longrightarrow> (a::int) smod b = a mod b"
  by (simp add: signed_modulo_int_def sgn_if)

lemma rb_ok_new: "cap < 2 ^ 63 \<Longrightarrow> NewRingBuffer cap = Inr rb \<Longrightarrow> rb_ok rb"
  by (auto simp: NewRingBuffer_def rb_ok_def split: if_splits)

lemma rb_ok_add: "rb_ok rb \<Longrightarrow> Add rb v = Inr rb' \<Longrightarrow> rb_ok rb'"
  by (auto simp: Add_def rb_ok_def smod_nonneg_pos split: if_splits)

lemma rb_ok_reset: "rb_ok rb \<Longrightarrow> rb_ok (Reset rb)"
  by (auto simp: Reset_def rb_ok_def)





lemma truncate_floor: "0 \<le> x \<Longrightarrow> truncate_real x = \<lfloor>x\<rfloor>"
  by (simp add: truncate_real_def)

lemma float_to_int_floor:
  assumes "0 \<le> x" "\<lfloor>x\<rfloor> < 2 ^ 63"
  shows "float_to_int x = Some \<lfloor>x\<rfloor>"
proof -
  have "0 \<le> \<lfloor>x\<rfloor>" using assms(1) by simp
  then have "- (2 ^ 63) \<le> \<lfloor>x\<rfloor>" by (rule order_trans [rotated]) simp
  then show ?thesis
    using assms by (simp add: float_to_int_def truncate_real_def)
qed

lemma percentile_scaled_bounds:
  assumes "0 < (n::int)" "0 \<le> p" "p \<le> 100"
  shows "0 \<le> real_of_int n * p / 100" and "\<lfloor>real_of_int n * p / 100\<rfloor> \<le> n"
proof -
  show x0: "0 \<le> real_of_int n * p / 100" using assms by simp
  have "real_of_int n * p \<le> real_of_int n * 100"
    using assms by (intro mult_left_mono) auto
  then have "real_of_int n * p / 100 \<le> real_of_int n" by simp
  then show "\<lfloor>real_of_int n * p / 100\<rfloor> \<le> n" by (simp add: floor_le_iff)
qed

lemma percentileIndex_value:
  assumes "0 < rbsize rb" "rbsize rb < 2 ^ 63" "0 \<le> p" "p \<le> 100"
  shows "percentileIndex rb p = Some (min \<lfloor>real_of_int (rbsize rb) * p / 100\<rfloor> (rbsize rb - 1))"
    and "0 \<le> min \<lfloor>real_of_int (rbsize rb) * p / 100\<rfloor> (rbsize rb - 1)"
    and "min \<lfloor>real_of_int (rbsize rb) * p / 100\<rfloor> (rbsize rb - 1) < rbsize rb"
proof -
  define x where "x = real_of_int (rbsize rb) * p / 100"
  have x0: "0 \<le> x" and fle: "\<lfloor>x\<rfloor> \<le> rbsize rb"
    unfolding x_def using percentile_scaled_bounds [OF assms(1) assms(3) assms(4)] by blast+
  have f0: "0 \<le> \<lfloor>x\<rfloor>" using x0 by simp
  have "\<lfloor>x\<rfloor> < 2 ^ 63" using fle assms(2) by (rule le_less_trans)
  then have conv: "float_to_int x = Some \<lfloor>x\<rfloor>" using x0 by (simp add: float_to_int_floor)
  have "percentileIndex rb p = Some (min \<lfloor>x\<rfloor> (rbsize rb - 1))"
    using conv unfolding percentileIndex_def x_def [symmetric] by (auto simp: min_def)
  then show "percentileIndex rb p = Some (min \<lfloor>real_of_int (rbsize rb) * p / 100\<rfloor> (rbsize rb - 1))"
    unfolding x_def .
  have "0 \<le> min \<lfloor>x\<rfloor> (rbsize rb - 1)" using f0 assms(1) by simp
  then show "0 \<le> min \<lfloor>real_of_int (rbsize rb) * p / 100\<rfloor> (rbsize rb - 1)"
    unfolding x_def .
  show "min \<lfloor>real_of_int (rbsize rb) * p / 100\<rfloor> (rbsize rb - 1) < rbsize rb" by simp
qed

lemma length_sortedData:
  "0 \<le> rbsize rb \<Longrightarrow> rbsize rb \<le> int (length (data rb)) \<Longrightarrow>
   int (length (sortedData rb)) = rbsize rb"
  by (simp add: sortedData_def)

lemma Percentile_value:
  assumes "0 < rbsize rb" "rbsize rb \<le> int (length (data rb))" "rbsize rb < 2 ^ 63"
    "0 \<le> p" "p \<le> 100"
  shows "Percentile rb p =
           Inr (sortedData rb ! nat (min \<lfloor>real_of_int (rbsize rb) * p / 100\<rfloor> (rbsize rb - 1)))"
proof -
  define i where "i = min \<lfloor>real_of_int (rbsize rb) * p / 100\<rfloor> (rbsize rb - 1)"
  have ix: "percentileIndex rb p = Some i" and i0: "0 \<le> i" and ilt: "i < rbsize rb"
    unfolding i_def using percentileIndex_value [OF assms(1) assms(3) assms(4) assms(5)] by blast+
  have len: "int (length (sortedData rb)) = rbsize rb"
    using assms by (simp add: length_sortedData)
  have "Percentile rb p = Inr (sortedData rb ! nat i)"
    using assms(1,2) ix i0 ilt len by (simp add: Percentile_def)
  then show ?thesis unfolding i_def .
qed






















lemma round_f64_zero [simp]: "round_f64 0 = 0"
  by (simp add: round_f64_def)








lemma Percentile_total:
  assumes "rb_ok rb" "0 \<le> p" "p \<le> 100"
  shows "\<exists>v. Percentile rb p = Inr v"
proof (cases "rbsize rb = 0")
  case True
  then show ?thesis by (simp add: Percentile_def)
next
  case False
  with assms(1) have "0 < rbsize rb" "rbsize rb \<le> int (length (data rb))" "rbsize rb < 2 ^ 63"
    by (auto simp: rb_ok_def)
  from Percentile_value [OF this assms(2) assms(3)] show ?thesis by blast
qed


lemma MinMaxAverage_total:
  assumes "rb_ok rb"
  shows "(\<exists>v. Min_rb rb = Inr v) \<and> (\<exists>v. Max_rb rb = Inr v) \<and> (\<exists>v. Average rb = Inr v)"
proof (cases "rbsize rb = 0")
  case True
  then show ?thesis by (simp add: Min_rb_def Max_rb_def Average_def)
next
  case False
  with assms have le: "rbsize rb \<le> int (length (data rb))" and ne: "data rb \<noteq> []"
    by (auto simp: rb_ok_def)
  then show ?thesis
    using False by (auto simp: Min_rb_def Max_rb_def Average_def split: list.splits)
qed









section \<open>Configuration store: proofs\<close>


lemma Resolve_none [simp]:
  "ResolveEndpointAuth (JString ''none'') configs = Inr authNone"
  "ResolveEndpointAuth JNull configs = Inr authNone"
  by (simp_all add: ResolveEndpointAuth_def AuthTypeNone_def)

lemma normalizeEndpoint_fields:
  "ep_Timeout (normalizeEndpoint configs e) = (if ep_Timeout e = 0 then 30 else ep_Timeout e)"
  "ep_Method (normalizeEndpoint configs e) = (if ep_Method e = [] then ''GET'' else ep_Method e)"
  "ep_Enabled (normalizeEndpoint configs e) = (ep_Enabled e \<or> \<not> ep_EnabledSet e)"
  "ep_EnabledSet (normalizeEndpoint configs e) = ep_EnabledSet e"
  "ep_Auth (normalizeEndpoint configs e) = (if ep_Auth e = JNull then JString ''none'' else ep_Auth e)"
  by (auto simp: normalizeEndpoint_def Let_def split: sum.splits)

lemma normalizeEndpoint_idem:
  "normalizeEndpoint configs (normalizeEndpoint configs e) = normalizeEndpoint configs e"
proof -
  let ?n = "normalizeEndpoint configs e"
  have 1: "ep_Timeout ?n \<noteq> 0" "ep_Method ?n \<noteq> []" "ep_Enabled ?n \<or> ep_EnabledSet ?n"
    "ep_Auth ?n \<noteq> JNull"
    by (auto simp: normalizeEndpoint_fields)
  have 2: "ep_ResolvedAuth ?n =
             Some (case ResolveEndpointAuth (ep_Auth ?n) configs of Inl err \<Rightarrow> authNone | Inr a \<Rightarrow> a)"
    by (auto simp: normalizeEndpoint_def Let_def split: sum.splits)
  have "normalizeEndpoint configs ?n =
          (case ResolveEndpointAuth (ep_Auth ?n) configs of
             Inl err \<Rightarrow> ?n\<lparr>ep_ResolvedAuth := Some authNone\<rparr>
           | Inr a \<Rightarrow> ?n\<lparr>ep_ResolvedAuth := Some a\<rparr>)"
    using 1 by (subst normalizeEndpoint_def) (auto simp: Let_def)
  also have "\<dots> = ?n"
    using 2 by (cases "ResolveEndpointAuth (ep_Auth ?n) configs") simp_all
  finally show ?thesis .
qed

lemma normalizeIncomingRoute_idem:
  "normalizeIncomingRoute (normalizeIncomingRoute r) = normalizeIncomingRoute r"
  by (simp add: normalizeIncomingRoute_def Let_def)

text \<open>
  Claim C8. Configuration normalization (endpoint timeout defaulted to 30 and method to GET,
  \<open>enabled\<close> defaulted to true when not explicitly set, \<open>auth\<close> resolved to \<open>resolved_auth\<close>
  with fallback to none, incoming-route method and \<open>enabled\<close> defaulted) is idempotent:
  normalizing a normalized configuration yields an equal configuration.
\<close>

theorem normalize_idempotent: "normalize (normalize c) = normalize c"
  by (simp add: normalize_def normalizeEndpoints_def normalizeIncomingRoutes_def
      normalizeEndpoint_idem normalizeIncomingRoute_idem)


lemma validTypes_simps: "''bearer'' \<in> set validTypes" "''bogus'' \<notin> set validTypes"
  by (simp_all add: validTypes_def AuthTypeNone_def AuthTypeBearer_def AuthTypeAPIKey_def
      AuthTypeAPIKeyQuery_def AuthTypeBasic_def AuthTypeCustom_def)

lemma auth_a_valid: "AuthConfig_Validate auth_a = []"
  by (simp add: AuthConfig_Validate_def auth_a_def AuthConfig_zero_def validTypes_simps
      AuthTypeNone_def AuthTypeBearer_def AuthTypeAPIKey_def
      AuthTypeAPIKeyQuery_def AuthTypeBasic_def AuthTypeCustom_def)

lemma auth_bad_invalid: "AuthConfig_Validate auth_bad = [AuthInvalidType]"
  by (simp add: AuthConfig_Validate_def auth_bad_def AuthConfig_zero_def validTypes_simps
      AuthTypeNone_def AuthTypeBearer_def AuthTypeAPIKey_def
      AuthTypeAPIKeyQuery_def AuthTypeBasic_def AuthTypeCustom_def)

lemma store_a_built: "AddAuthConfig NewManager auth_a = (None, store_a)"
  using auth_a_valid
  by (simp add: AddAuthConfig_def store_a_def) (simp add: auth_a_def NewManager_def)

text \<open>
  Claim C2 says that a configuration mutation that returns an error leaves the store as it
  was. \<open>UpdateAuthConfig\<close> does not: renaming the auth config \<open>a\<close> to \<open>b\<close> with an invalid type
  returns the validation error after \<open>a\<close> has been deleted from the store. The store used
  here is the one \<open>AddAuthConfig\<close> builds from a new manager.
\<close>

theorem UpdateAuthConfig_error_changes_store:
  "AddAuthConfig NewManager auth_a = (None, store_a) \<and>
   UpdateAuthConfig store_a ''a'' auth_bad =
     (Some (ValidationFailed [AuthInvalidType]), store_a\<lparr>cfg_AuthConfigs := Map.empty\<rparr>) \<and>
   cfg_AuthConfigs store_a ''a'' = Some auth_a \<and>
   cfg_AuthConfigs (snd (UpdateAuthConfig store_a ''a'' auth_bad)) ''a'' = None \<and>
   snd (UpdateAuthConfig store_a ''a'' auth_bad) \<noteq> store_a"
proof -
  have u: "UpdateAuthConfig store_a ''a'' auth_bad =
     (Some (ValidationFailed [AuthInvalidType]), store_a\<lparr>cfg_AuthConfigs := Map.empty\<rparr>)"
    using auth_bad_invalid
    by (simp add: UpdateAuthConfig_def Let_def) (simp add: store_a_def auth_bad_def NewManager_def)
  have s: "cfg_AuthConfigs store_a ''a'' = Some auth_a" by (simp add: store_a_def)
  have n: "cfg_AuthConfigs (snd (UpdateAuthConfig store_a ''a'' auth_bad)) ''a'' = None"
    by (simp add: u)
  from s n have "snd (UpdateAuthConfig store_a ''a'' auth_bad) \<noteq> store_a" by auto
  with u s n store_a_built show ?thesis by simp
qed

lemma Resolve_inline: "ResolveEndpointAuth (ep_Auth ep_inline) (cfg_AuthConfigs store_a) = Inr auth_a"
  by (simp add: ResolveEndpointAuth_def parseAuthConfigMap_def stringField_def ep_inline_def
      store_a_def Let_def)

lemma store_inline_built: "AddEndpoint store_a ep_inline = (None, store_inline)"
proof -
  have d: "endpointDefaults ep_inline = ep_inline"
    by (simp add: endpointDefaults_def ep_inline_def)
  have v: "Endpoint_Validate (ep_inline\<lparr>ep_ResolvedAuth := Some auth_a\<rparr>) = []"
    by (simp add: Endpoint_Validate_def ep_inline_def validMethods_def)
  have "prepareEndpoint (cfg_AuthConfigs store_a) ep_inline = Inr (ep_inline\<lparr>ep_ResolvedAuth := Some auth_a\<rparr>)"
    by (simp add: prepareEndpoint_def d Resolve_inline v Let_def)
  then show ?thesis
    by (simp add: AddEndpoint_def store_inline_def) (simp add: store_a_def NewManager_def)
qed

text \<open>
  Claim C3 says that \<open>DeleteAuthConfig\<close> is refused whenever an endpoint references the auth
  config, by name or through an inline \<open>{ref: name}\<close> descriptor. With an endpoint whose
  \<open>auth\<close> is \<open>{ref: a}\<close> (added through \<open>AddEndpoint\<close>, which resolves it to \<open>a\<close>), deleting \<open>a\<close>
  succeeds, and the endpoint's reference no longer resolves.
\<close>

theorem DeleteAuthConfig_inline_ref_not_refused:
  "AddEndpoint store_a ep_inline = (None, store_inline) \<and>
   ResolveEndpointAuth (ep_Auth ep_inline) (cfg_AuthConfigs store_inline) = Inr auth_a \<and>
   DeleteAuthConfig store_inline ''a'' = (None, store_inline\<lparr>cfg_AuthConfigs := Map.empty\<rparr>) \<and>
   ResolveEndpointAuth (ep_Auth ep_inline) (cfg_AuthConfigs (snd (DeleteAuthConfig store_inline ''a'')))
     = Inl (AuthRefNotFound ''a'')"
proof -
  have r: "ResolveEndpointAuth (ep_Auth ep_inline) (cfg_AuthConfigs store_inline) = Inr auth_a"
    using Resolve_inline by (simp add: store_inline_def)
  have d: "DeleteAuthConfig store_inline ''a'' = (None, store_inline\<lparr>cfg_AuthConfigs := Map.empty\<rparr>)"
    by (simp add: DeleteAuthConfig_def store_inline_def store_a_def ep_inline_def)
  have a: "ResolveEndpointAuth (ep_Auth ep_inline) Map.empty = Inl (AuthRefNotFound ''a'')"
    by (simp add: ResolveEndpointAuth_def parseAuthConfigMap_def stringField_def ep_inline_def)
  show ?thesis using store_inline_built r d a by simp
qed

text \<open>
  What does hold of the store: a plain string reference blocks the deletion, and every
  other mutation that returns an error returns the store unchanged, as does
  \<open>UpdateAuthConfig\<close> when the name is kept; a full replacement swaps only a configuration
  that passed validation on the scratch manager.
\<close>

lemma DeleteAuthConfig_refuses_string_ref:
  assumes "cfg_AuthConfigs cfg name \<noteq> None" "ep \<in> set (cfg_Endpoints cfg)" "ep_Auth ep = JString name"
  shows "fst (DeleteAuthConfig cfg name) \<noteq> None \<and> snd (DeleteAuthConfig cfg name) = cfg"
proof -
  from assms(2,3) have "find (\<lambda>ep. ep_Auth ep = JString name) (cfg_Endpoints cfg) \<noteq> None"
    by (auto simp: find_None_iff)
  then show ?thesis using assms(1) by (auto simp: DeleteAuthConfig_def)
qed

lemma AddEndpoint_error_keeps: "fst (AddEndpoint cfg e) \<noteq> None \<Longrightarrow> snd (AddEndpoint cfg e) = cfg"
  by (auto simp: AddEndpoint_def split: sum.splits if_splits)

lemma UpdateEndpoint_error_keeps:
  "fst (UpdateEndpoint cfg name e) \<noteq> None \<Longrightarrow> snd (UpdateEndpoint cfg name e) = cfg"
  by (auto simp: UpdateEndpoint_def split: sum.splits if_splits option.splits)

lemma DeleteEndpoint_error_keeps:
  "fst (DeleteEndpoint cfg name) \<noteq> None \<Longrightarrow> snd (DeleteEndpoint cfg name) = cfg"
  by (auto simp: DeleteEndpoint_def split: option.splits)

lemma AddAuthConfig_error_keeps:
  "fst (AddAuthConfig cfg a) \<noteq> None \<Longrightarrow> snd (AddAuthConfig cfg a) = cfg"
  by (auto simp: AddAuthConfig_def split: if_splits)

lemma DeleteAuthConfig_error_keeps:
  "fst (DeleteAuthConfig cfg name) \<noteq> None \<Longrightarrow> snd (DeleteAuthConfig cfg name) = cfg"
  by (auto simp: DeleteAuthConfig_def split: if_splits option.splits)

lemma AddIncomingRoute_error_keeps:
  "fst (AddIncomingRoute cfg r) \<noteq> None \<Longrightarrow> snd (AddIncomingRoute cfg r) = cfg"
  by (auto simp: AddIncomingRoute_def split: sum.splits if_splits)

lemma UpdateIncomingRoute_error_keeps:
  "fst (UpdateIncomingRoute cfg name r) \<noteq> None \<Longrightarrow> snd (UpdateIncomingRoute cfg name r) = cfg"
  by (auto simp: UpdateIncomingRoute_def split: sum.splits if_splits option.splits)

lemma DeleteIncomingRoute_error_keeps:
  "fst (DeleteIncomingRoute cfg name) \<noteq> None \<Longrightarrow> snd (DeleteIncomingRoute cfg name) = cfg"
  by (auto simp: DeleteIncomingRoute_def split: option.splits)

lemma ReplaceConfig_error_keeps:
  "fst (ReplaceConfig cfg n) \<noteq> None \<Longrightarrow> snd (ReplaceConfig cfg n) = cfg"
  by (auto simp: ReplaceConfig_def split: option.splits)

lemma importConfig_error_keeps:
  "fst (importConfig cfg n) \<noteq> None \<Longrightarrow> snd (importConfig cfg n) = cfg"
  by (auto simp: importConfig_def ReplaceConfig_def split: if_splits)

lemma importConfig_swaps_only_valid:
  "snd (importConfig cfg n) \<noteq> cfg \<Longrightarrow>
   Manager_Validate (snd (ReplaceConfig NewManager (Some n))) = []"
  by (auto simp: importConfig_def ReplaceConfig_def split: if_splits)

lemma UpdateAuthConfig_error_keeps_same_name:
  "ac_Name a = name \<Longrightarrow> fst (UpdateAuthConfig cfg name a) \<noteq> None \<Longrightarrow>
   snd (UpdateAuthConfig cfg name a) = cfg"
  by (auto simp: UpdateAuthConfig_def Let_def split: if_splits)


lemma suffix_empty_iff:
  assumes "HasPrefix path pre"
  shows "TrimPrefix path pre = [] \<longleftrightarrow> path = pre"
proof -
  from assms have le: "length pre \<le> length path" and tk: "take (length pre) path = pre"
    unfolding HasPrefix_def by blast+
  have "drop (length pre) path = [] \<longleftrightarrow> path = pre"
  proof
    assume "drop (length pre) path = []"
    then have "length path \<le> length pre" by simp
    with le have "length pre = length path" by simp
    with tk show "path = pre" by simp
  next
    assume "path = pre"
    then show "drop (length pre) path = []" by simp
  qed
  then show ?thesis using assms unfolding TrimPrefix_def by simp
qed

lemma TrimPrefix_drop: "HasPrefix path pre \<Longrightarrow> TrimPrefix path pre = drop (length pre) path"
  by (simp add: TrimPrefix_def)

lemma HasPrefix_append: "HasPrefix path pre \<Longrightarrow> path = pre @ drop (length pre) path"
  by (metis HasPrefix_def append_take_drop_id)

lemma matchLoop_step:
  "matchLoop (route # rest) path method =
     (if routeMatches route path method then Some (route, drop (length (ie_Path route)) path)
      else matchLoop rest path method)"
proof (cases "HasPrefix path (ie_Path route)")
  case True
  then show ?thesis
    using suffix_empty_iff [OF True] TrimPrefix_drop [OF True]
    by (auto simp: routeMatches_def Clone_def Let_def)
next
  case False
  then show ?thesis by (simp add: routeMatches_def)
qed

lemma matchLoop_None_iff:
  "matchLoop rs path method = None \<longleftrightarrow> (\<forall>r \<in> set rs. \<not> routeMatches r path method)"
  by (induction rs) (simp_all add: matchLoop_step del: matchLoop.simps(2))

lemma matchLoop_Some:
  "matchLoop rs path method = Some (r, sfx) \<Longrightarrow>
   \<exists>pre post. rs = pre @ r # post \<and> (\<forall>x \<in> set pre. \<not> routeMatches x path method) \<and>
     routeMatches r path method \<and> sfx = drop (length (ie_Path r)) path"
proof (induction rs)
  case Nil
  then show ?case by simp
next
  case (Cons a rs)
  show ?case
  proof (cases "routeMatches a path method")
    case True
    with Cons.prems have "r = a" "sfx = drop (length (ie_Path a)) path"
      by (auto simp: matchLoop_step simp del: matchLoop.simps(2))
    with True show ?thesis by (intro exI [of _ "[]"] exI [of _ rs]) simp
  next
    case False
    with Cons.prems have "matchLoop rs path method = Some (r, sfx)"
      by (simp add: matchLoop_step del: matchLoop.simps(2))
    from Cons.IH [OF this] obtain pre post where
      "rs = pre @ r # post" "\<forall>x \<in> set pre. \<not> routeMatches x path method"
      "routeMatches r path method" "sfx = drop (length (ie_Path r)) path"
      by blast
    with False show ?thesis
      by (intro exI [of _ "a # pre"] exI [of _ post]) simp
  qed
qed

lemma sortSliceResult_set: "sortSliceResult routes srt \<Longrightarrow> set srt = set routes"
  by (metis sortSliceResult_def set_mset_mset)

lemma matchLoop_longest:
  assumes "sorted_wrt (\<lambda>a b. length (ie_Path b) \<le> length (ie_Path a)) rs"
    and "matchLoop rs path method = Some (r, sfx)"
    and "r' \<in> set rs" "routeMatches r' path method"
  shows "length (ie_Path r') \<le> length (ie_Path r)"
proof -
  from matchLoop_Some [OF assms(2)] obtain pre post where
    rs: "rs = pre @ r # post" and pre: "\<forall>x \<in> set pre. \<not> routeMatches x path method"
    by blast
  from assms(3,4) pre rs have "r' = r \<or> r' \<in> set post" by auto
  moreover have "\<forall>x \<in> set post. length (ie_Path x) \<le> length (ie_Path r)"
    using assms(1) unfolding rs by (simp add: sorted_wrt_append)
  ultimately show ?thesis by auto
qed

lemma sortRoutes_sortSliceResult: "sortSliceResult routes (sortRoutes routes)"
proof -
  have "sorted (map (\<lambda>r. - int (length (ie_Path r))) (sortRoutes routes))"
    by (simp add: sortRoutes_def)
  then have "sorted_wrt (\<lambda>a b. length (ie_Path b) \<le> length (ie_Path a)) (sortRoutes routes)"
    by (simp add: sorted_map)
  then show ?thesis by (simp add: sortSliceResult_def sortRoutes_def)
qed

text \<open>
  Claim C4. For every order \<open>sort.Slice\<close> can leave the routes in, \<open>MatchIncomingRoute\<close> returns
  a match if and only if \<open>incoming_enabled\<close> is true and some route is enabled, has method
  \<open>*\<close> or the request method, has a path that is a prefix of the request path, and the
  remainder is empty or begins with \<open>/\<close>. The returned route is such a route of the store, no
  matching route has a longer path, and the returned suffix is the remainder after the
  matched prefix. The insertion sort \<open>sortRoutes\<close> is one such order.
\<close>

theorem MatchIncomingRoute_longest_prefix:
  assumes "sortSliceResult (cfg_IncomingRoutes cfg) srt"
  shows "(MatchIncomingRouteFrom srt cfg path method \<noteq> None \<longleftrightarrow>
            cfg_IncomingEnabled cfg \<and>
            (\<exists>r \<in> set (cfg_IncomingRoutes cfg). routeMatches r path method)) \<and>
         (\<forall>r sfx. MatchIncomingRouteFrom srt cfg path method = Some (r, sfx) \<longrightarrow>
            r \<in> set (cfg_IncomingRoutes cfg) \<and> routeMatches r path method \<and>
            (\<forall>r' \<in> set (cfg_IncomingRoutes cfg).
               routeMatches r' path method \<longrightarrow> length (ie_Path r') \<le> length (ie_Path r)) \<and>
            path = ie_Path r @ sfx) \<and>
         sortSliceResult (cfg_IncomingRoutes cfg) (sortRoutes (cfg_IncomingRoutes cfg))"
proof -
  have st: "set srt = set (cfg_IncomingRoutes cfg)"
    using assms by (rule sortSliceResult_set)
  have sw: "sorted_wrt (\<lambda>a b. length (ie_Path b) \<le> length (ie_Path a)) srt"
    using assms by (simp add: sortSliceResult_def)
  have a: "MatchIncomingRouteFrom srt cfg path method \<noteq> None \<longleftrightarrow>
            cfg_IncomingEnabled cfg \<and>
            (\<exists>r \<in> set (cfg_IncomingRoutes cfg). routeMatches r path method)"
    using st matchLoop_None_iff [of srt path "method"]
    by (auto simp: MatchIncomingRouteFrom_def)
  have b: "r \<in> set (cfg_IncomingRoutes cfg) \<and> routeMatches r path method \<and>
            (\<forall>r' \<in> set (cfg_IncomingRoutes cfg).
               routeMatches r' path method \<longrightarrow> length (ie_Path r') \<le> length (ie_Path r)) \<and>
            path = ie_Path r @ sfx"
    if m: "MatchIncomingRouteFrom srt cfg path method = Some (r, sfx)" for r sfx
  proof -
    from m have ml: "matchLoop srt path method = Some (r, sfx)"
      by (simp add: MatchIncomingRouteFrom_def split: if_splits)
    from matchLoop_Some [OF ml] obtain pre post where
      rs: "srt = pre @ r # post" and rm: "routeMatches r path method"
      and sf: "sfx = drop (length (ie_Path r)) path"
      by blast
    have "r \<in> set (cfg_IncomingRoutes cfg)" using rs st by auto
    moreover have "path = ie_Path r @ sfx"
      using rm sf HasPrefix_append by (simp add: routeMatches_def)
    moreover have "\<forall>r' \<in> set (cfg_IncomingRoutes cfg).
               routeMatches r' path method \<longrightarrow> length (ie_Path r') \<le> length (ie_Path r)"
      using matchLoop_longest [OF sw ml] st by blast
    ultimately show ?thesis using rm by blast
  qed
  show ?thesis using a b sortRoutes_sortSliceResult by blast
qed

lemma sortRoutes_store: "sortRoutes (cfg_IncomingRoutes store_routes) = [route_ab, route_a]"
  by (simp add: sortRoutes_def store_routes_def route_a_def route_ab_def)

lemma match_abc: "MatchIncomingRoute store_routes ''/a/b/c'' ''GET'' = Some (route_ab, ''/c'')"
  unfolding MatchIncomingRoute_def sortRoutes_store
  by (simp add: MatchIncomingRouteFrom_def store_routes_def NewManager_def route_a_def route_ab_def
      HasPrefix_def TrimPrefix_def Clone_def)

lemma match_ax: "MatchIncomingRoute store_routes ''/a/x'' ''GET'' = Some (route_a, ''/x'')"
  unfolding MatchIncomingRoute_def sortRoutes_store
  by (simp add: MatchIncomingRouteFrom_def store_routes_def NewManager_def route_a_def route_ab_def
      HasPrefix_def TrimPrefix_def Clone_def)

lemma match_ab_prefix_only: "MatchIncomingRoute store_routes ''/ab'' ''GET'' = None"
  unfolding MatchIncomingRoute_def sortRoutes_store
  by (simp add: MatchIncomingRouteFrom_def store_routes_def NewManager_def route_a_def route_ab_def
      HasPrefix_def TrimPrefix_def Clone_def)

text \<open>
  The instance of C4 with the routes \<open>/a\<close> and \<open>/a/b\<close> enabled: \<open>/a/b/c\<close> matches \<open>/a/b\<close> with
  suffix \<open>/c\<close>, and \<open>/a/x\<close> matches \<open>/a\<close> with suffix \<open>/x\<close>.
\<close>

theorem MatchIncomingRoute_longest_prefix_witness:
  "sortSliceResult (cfg_IncomingRoutes store_routes) (sortRoutes (cfg_IncomingRoutes store_routes)) \<and>
   MatchIncomingRoute store_routes ''/a/b/c'' ''GET'' = Some (route_ab, ''/c'') \<and>
   MatchIncomingRoute store_routes ''/a/x'' ''GET'' = Some (route_a, ''/x'') \<and>
   route_ab \<in> set (cfg_IncomingRoutes store_routes) \<and>
   routeMatches route_ab ''/a/b/c'' ''GET'' \<and> routeMatches route_a ''/a/b/c'' ''GET'' \<and>
   length (ie_Path route_a) \<le> length (ie_Path route_ab) \<and>
   ''/a/b/c'' = ie_Path route_ab @ ''/c''"
proof -
  have s: "sortSliceResult (cfg_IncomingRoutes store_routes) (sortRoutes (cfg_IncomingRoutes store_routes))"
    by (rule sortRoutes_sortSliceResult)
  have ra: "routeMatches route_a ''/a/b/c'' ''GET''"
    by (simp add: routeMatches_def route_a_def HasPrefix_def)
  have m: "MatchIncomingRouteFrom (sortRoutes (cfg_IncomingRoutes store_routes)) store_routes ''/a/b/c'' ''GET''
             = Some (route_ab, ''/c'')"
    using match_abc by (simp add: MatchIncomingRoute_def)
  have ina: "route_a \<in> set (cfg_IncomingRoutes store_routes)" by (simp add: store_routes_def)
  from MatchIncomingRoute_longest_prefix [OF s, of "''/a/b/c''" "''GET''"] m
  have "route_ab \<in> set (cfg_IncomingRoutes store_routes) \<and> routeMatches route_ab ''/a/b/c'' ''GET'' \<and>
        (\<forall>r' \<in> set (cfg_IncomingRoutes store_routes).
           routeMatches r' ''/a/b/c'' ''GET'' \<longrightarrow> length (ie_Path r') \<le> length (ie_Path route_ab)) \<and>
        ''/a/b/c'' = ie_Path route_ab @ ''/c''"
    by blast
  with ra ina s match_abc match_ax show ?thesis by blast
qed

section \<open>Weighted response selection: proofs\<close>



text \<open>
  Claim C10. \<open>selectWeightedResponse\<close> applied to a list of exactly one response returns that
  response whatever its share, and leaves the random source where it was; applied to the
  empty list it returns the fallback response with status 500, share 1.0 and delays of
  0 ms, again without drawing.
\<close>

theorem selectWeightedResponse_degenerate:
  "selectWeightedResponse rnd pos [resp] = (resp, pos) \<and>
   selectWeightedResponse rnd pos [] = (fallbackResponse, pos) \<and>
   fallbackResponse = \<lparr>rc_StatusCode = 500, rc_Share = 1, rc_MinResponseMs = 0, rc_MaxResponseMs = 0\<rparr>"
  by (simp add: selectWeightedResponse_def fallbackResponse_def)



section \<open>Token manager: proofs\<close>

lemma refreshAttempts_all_fail:
  assumes "ao_fetch (obs 0) = Inl e0" "ao_fetch (obs 1) = Inl e1"
    "ao_fetch (obs 2) = Inl e2" "ao_fetch (obs 3) = Inl e3"
    and "\<not> ao_ctxDone (obs 1)" "\<not> ao_ctxDone (obs 2)" "\<not> ao_ctxDone (obs 3)"
  shows "refreshAttempts obs 0 4 None = AllFailed (Some e3)"
proof -
  have four: "(4::nat) = Suc (Suc (Suc (Suc 0)))" by simp
  show ?thesis
    unfolding four using assms by (simp add: eval_nat_numeral)
qed

lemma refreshAttempts_cut:
  assumes "ao_fetch (obs 0) = Inl e0"
    and "ao_ctxDone (obs 1) \<or>
         \<not> ao_ctxDone (obs 1) \<and> ao_fetch (obs 1) = Inl e1 \<and>
           (ao_ctxDone (obs 2) \<or>
            \<not> ao_ctxDone (obs 2) \<and> ao_fetch (obs 2) = Inl e2 \<and> ao_ctxDone (obs 3))"
  shows "refreshAttempts obs 0 4 None = Cancelled"
proof -
  have four: "(4::nat) = Suc (Suc (Suc (Suc 0)))" by simp
  show ?thesis
    unfolding four using assms by (auto simp: eval_nat_numeral)
qed

lemma refreshToken_all_fail:
  assumes "refreshAttempts obs 0 4 None = AllFailed (Some e)"
  shows "tm_tokens tm authName = Some tok \<Longrightarrow> \<not> now < mt_RefreshAt tok \<Longrightarrow>
           refreshToken tm authName cfg now obs =
             ((mt_Value tok, None),
              tm\<lparr>tm_tokens := (tm_tokens tm)(authName \<mapsto>
                    tok\<lparr>mt_LastError := Some e, mt_ErrorCount := mt_ErrorCount tok + 1\<rparr>)\<rparr>)"
    and "tm_tokens tm authName = None \<Longrightarrow>
           refreshToken tm authName cfg now obs =
             (([], Some (RefreshFailedAfterRetries (Some e))), tm)"
  using assms by (simp_all add: refreshToken_def)

lemma refreshToken_cancelled:
  assumes "refreshAttempts obs 0 4 None = Cancelled"
  shows "tm_tokens tm authName = Some tok \<Longrightarrow> \<not> now < mt_RefreshAt tok \<Longrightarrow>
           refreshToken tm authName cfg now obs = (([], Some ContextDone), tm)"
    and "tm_tokens tm authName = None \<Longrightarrow>
           refreshToken tm authName cfg now obs = (([], Some ContextDone), tm)"
  using assms by (simp_all add: refreshToken_def)

lemma GetToken_refreshes:
  assumes "tm_authConfigs tm authName = Some cfg" "ac_TokenEndpoint cfg \<noteq> None"
  shows "tm_tokens tm authName = Some tok \<Longrightarrow> mt_RefreshAt tok < nowGet \<Longrightarrow>
           GetToken tm authName nowGet now obs = refreshToken tm authName cfg now obs"
    and "tm_tokens tm authName = None \<Longrightarrow>
           GetToken tm authName nowGet now obs = refreshToken tm authName cfg now obs"
  using assms by (auto simp: GetToken_def)

text \<open>
  Claim C5, as the code has it. When the four attempts of a token refresh are all made (no
  wait before a retry is cut short by the context) and every one of them fails: if a token
  is already stored for the auth name (and is due for refresh, so that the refresh is
  attempted at all), the refresh returns the stored value with no error, adds one to its
  \<open>error_count\<close> and sets \<open>last_error\<close> to the last failure; if no token is stored, the error
  is returned to the caller; \<open>GetToken\<close> returns the same when it finds the stored token due,
  or none. When instead the context is done during the wait before a retry, after every
  attempt made so far has failed, the refresh returns the context's error and leaves the
  token manager as it was, whether a token is stored or not.
\<close>

theorem refreshToken_stale_fallback:
  "(ao_fetch (obs 0) = Inl ea \<and> ao_fetch (obs 1) = Inl eb \<and>
    ao_fetch (obs 2) = Inl ec \<and> ao_fetch (obs 3) = Inl ed \<and>
    \<not> ao_ctxDone (obs 1) \<and> \<not> ao_ctxDone (obs 2) \<and> \<not> ao_ctxDone (obs 3) \<longrightarrow>
      (tm_tokens tm authName = Some tok \<and> \<not> now < mt_RefreshAt tok \<longrightarrow>
         refreshToken tm authName cfg now obs =
           ((mt_Value tok, None),
            tm\<lparr>tm_tokens := (tm_tokens tm)(authName \<mapsto>
                  tok\<lparr>mt_LastError := Some ed, mt_ErrorCount := mt_ErrorCount tok + 1\<rparr>)\<rparr>)) \<and>
      (tm_tokens tm authName = None \<longrightarrow>
         refreshToken tm authName cfg now obs =
           (([], Some (RefreshFailedAfterRetries (Some ed))), tm)) \<and>
      (tm_authConfigs tm authName = Some cfg \<and> ac_TokenEndpoint cfg \<noteq> None \<and>
       tm_tokens tm authName = Some tok \<and> mt_RefreshAt tok < nowGet \<and>
       \<not> now < mt_RefreshAt tok \<longrightarrow>
         GetToken tm authName nowGet now obs =
           ((mt_Value tok, None),
            tm\<lparr>tm_tokens := (tm_tokens tm)(authName \<mapsto>
                  tok\<lparr>mt_LastError := Some ed, mt_ErrorCount := mt_ErrorCount tok + 1\<rparr>)\<rparr>)) \<and>
      (tm_authConfigs tm authName = Some cfg \<and> ac_TokenEndpoint cfg \<noteq> None \<and>
       tm_tokens tm authName = None \<longrightarrow>
         GetToken tm authName nowGet now obs =
           (([], Some (RefreshFailedAfterRetries (Some ed))), tm))) \<and>
   (ao_fetch (obs 0) = Inl ea \<and>
    (ao_ctxDone (obs 1) \<or>
     \<not> ao_ctxDone (obs 1) \<and> ao_fetch (obs 1) = Inl eb \<and>
       (ao_ctxDone (obs 2) \<or>
        \<not> ao_ctxDone (obs 2) \<and> ao_fetch (obs 2) = Inl ec \<and> ao_ctxDone (obs 3))) \<longrightarrow>
      (tm_tokens tm authName = Some tok \<and> \<not> now < mt_RefreshAt tok \<longrightarrow>
         refreshToken tm authName cfg now obs = (([], Some ContextDone), tm)) \<and>
      (tm_tokens tm authName = None \<longrightarrow>
         refreshToken tm authName cfg now obs = (([], Some ContextDone), tm)))"
proof (intro conjI impI)
  assume h: "ao_fetch (obs 0) = Inl ea \<and> ao_fetch (obs 1) = Inl eb \<and>
    ao_fetch (obs 2) = Inl ec \<and> ao_fetch (obs 3) = Inl ed \<and>
    \<not> ao_ctxDone (obs 1) \<and> \<not> ao_ctxDone (obs 2) \<and> \<not> ao_ctxDone (obs 3)"
  then have r: "refreshAttempts obs 0 4 None = AllFailed (Some ed)"
    by (intro refreshAttempts_all_fail) blast+
  note rt = refreshToken_all_fail [OF r]
  {
    assume "tm_tokens tm authName = Some tok \<and> \<not> now < mt_RefreshAt tok"
    then show "refreshToken tm authName cfg now obs =
           ((mt_Value tok, None),
            tm\<lparr>tm_tokens := (tm_tokens tm)(authName \<mapsto>
                  tok\<lparr>mt_LastError := Some ed, mt_ErrorCount := mt_ErrorCount tok + 1\<rparr>)\<rparr>)"
      using rt(1) by blast
  next
    assume "tm_tokens tm authName = None"
    then show "refreshToken tm authName cfg now obs =
           (([], Some (RefreshFailedAfterRetries (Some ed))), tm)"
      by (rule rt(2))
  next
    assume g: "tm_authConfigs tm authName = Some cfg \<and> ac_TokenEndpoint cfg \<noteq> None \<and>
       tm_tokens tm authName = Some tok \<and> mt_RefreshAt tok < nowGet \<and>
       \<not> now < mt_RefreshAt tok"
    then have "GetToken tm authName nowGet now obs = refreshToken tm authName cfg now obs"
      by (intro GetToken_refreshes(1)) blast+
    then show "GetToken tm authName nowGet now obs =
           ((mt_Value tok, None),
            tm\<lparr>tm_tokens := (tm_tokens tm)(authName \<mapsto>
                  tok\<lparr>mt_LastError := Some ed, mt_ErrorCount := mt_ErrorCount tok + 1\<rparr>)\<rparr>)"
      using rt(1) g by simp
  next
    assume g: "tm_authConfigs tm authName = Some cfg \<and> ac_TokenEndpoint cfg \<noteq> None \<and>
       tm_tokens tm authName = None"
    then have "GetToken tm authName nowGet now obs = refreshToken tm authName cfg now obs"
      by (intro GetToken_refreshes(2)) blast+
    then show "GetToken tm authName nowGet now obs =
           (([], Some (RefreshFailedAfterRetries (Some ed))), tm)"
      using rt(2) g by simp
  }
next
  assume h: "ao_fetch (obs 0) = Inl ea \<and>
    (ao_ctxDone (obs 1) \<or>
     \<not> ao_ctxDone (obs 1) \<and> ao_fetch (obs 1) = Inl eb \<and>
       (ao_ctxDone (obs 2) \<or>
        \<not> ao_ctxDone (obs 2) \<and> ao_fetch (obs 2) = Inl ec \<and> ao_ctxDone (obs 3)))"
  then have r: "refreshAttempts obs 0 4 None = Cancelled"
    by (intro refreshAttempts_cut) blast+
  note rt = refreshToken_cancelled [OF r]
  {
    assume "tm_tokens tm authName = Some tok \<and> \<not> now < mt_RefreshAt tok"
    then show "refreshToken tm authName cfg now obs = (([], Some ContextDone), tm)"
      using rt(1) by blast
  next
    assume "tm_tokens tm authName = None"
    then show "refreshToken tm authName cfg now obs = (([], Some ContextDone), tm)"
      by (rule rt(2))
  }
qed

lemma first_GetToken: "GetToken tm_empty ''a'' 0 0 obs_T1 = ((''T1'', None), tm_T1)"
proof -
  have four: "(4::nat) = Suc (Suc (Suc (Suc 0)))" by simp
  have r: "refreshAttempts obs_T1 0 4 None = Fetched ''T1'' 60000000000 0"
    unfolding four by (simp add: obs_T1_def)
  have d: "durationSeconds (ac_RefreshBeforeExpiry auth_tok) = 0"
    by (simp add: durationSeconds_def auth_tok_def AuthConfig_zero_def)
  show ?thesis
    by (simp add: GetToken_def refreshToken_def r d Let_def tm_empty_def tm_T1_def tok_T1_def)
       (simp add: auth_tok_def)
qed

lemma tm_T1_facts:
  "tm_tokens tm_T1 ''a'' = Some tok_T1" "\<not> (1::int) < mt_RefreshAt tok_T1"
  "mt_RefreshAt tok_T1 < 1" "tm_authConfigs tm_T1 ''a'' = Some auth_tok"
  "ac_TokenEndpoint auth_tok \<noteq> None" "tm_tokens tm_empty ''a'' = None"
  "mt_Value tok_T1 = ''T1''" "mt_ErrorCount tok_T1 = 0"
  by (simp_all add: tm_T1_def tok_T1_def auth_tok_def tm_empty_def)

lemma obs_cut_facts:
  "ao_fetch (obs_cut i) = Inl (FetchFailed ''token endpoint returned status 500'')"
  "ao_ctxDone (obs_cut 1)"
  by (simp_all add: obs_cut_def)

lemma refreshToken_obs_cut:
  "refreshToken tm_T1 ''a'' auth_tok 1 obs_cut = (([], Some ContextDone), tm_T1)"
proof -
  have "refreshAttempts obs_cut 0 4 None = Cancelled"
    by (rule refreshAttempts_cut [OF obs_cut_facts(1)], rule disjI1) (rule obs_cut_facts(2))
  from refreshToken_cancelled(1) [OF this tm_T1_facts(1) tm_T1_facts(2)] show ?thesis .
qed

text \<open>
  The instance of C5 in the scenario of the specification: the first \<open>GetToken\<close> stores
  \<open>T1\<close>; with the endpoint failing, a later \<open>GetToken\<close> still returns \<open>T1\<close> and the error
  count becomes 1; with no stored token the refresh returns the error; and when the context
  is done during the first wait the refresh returns the context's error with \<open>T1\<close> stored.
\<close>

theorem refreshToken_stale_fallback_witness:
  "GetToken tm_empty ''a'' 0 0 obs_T1 = ((''T1'', None), tm_T1) \<and>
   fst (GetToken tm_T1 ''a'' 1 1 obs_500) = (''T1'', None) \<and>
   fst (refreshToken tm_T1 ''a'' auth_tok 1 obs_500) = (''T1'', None) \<and>
   map_option mt_ErrorCount (tm_tokens (snd (refreshToken tm_T1 ''a'' auth_tok 1 obs_500)) ''a'') = Some 1 \<and>
   map_option mt_LastError (tm_tokens (snd (refreshToken tm_T1 ''a'' auth_tok 1 obs_500)) ''a'')
     = Some (Some (FetchFailed ''token endpoint returned status 500'')) \<and>
   refreshToken tm_empty ''a'' auth_tok 1 obs_500
     = (([], Some (RefreshFailedAfterRetries (Some (FetchFailed ''token endpoint returned status 500'')))),
        tm_empty) \<and>
   ao_fetch (obs_cut 0) = Inl (FetchFailed ''token endpoint returned status 500'') \<and>
   ao_ctxDone (obs_cut 1) \<and>
   refreshToken tm_T1 ''a'' auth_tok 1 obs_cut = (([], Some ContextDone), tm_T1)"
proof -
  have f: "ao_fetch (obs_500 i) = Inl (FetchFailed ''token endpoint returned status 500'')"
    and c: "\<not> ao_ctxDone (obs_500 i)" for i
    by (simp_all add: obs_500_def)
  note t = tm_T1_facts
  note th = refreshToken_stale_fallback
    [where obs = obs_500 and ea = "FetchFailed ''token endpoint returned status 500''"
       and eb = "FetchFailed ''token endpoint returned status 500''"
       and ec = "FetchFailed ''token endpoint returned status 500''"
       and ed = "FetchFailed ''token endpoint returned status 500''"
       and authName = "''a''" and tok = tok_T1 and now = 1 and cfg = auth_tok and nowGet = 1]
  from th [where tm = tm_T1] f c t
  have 1: "refreshToken tm_T1 ''a'' auth_tok 1 obs_500 =
          ((''T1'', None),
           tm_T1\<lparr>tm_tokens := (tm_tokens tm_T1)(''a'' \<mapsto>
                 tok_T1\<lparr>mt_LastError := Some (FetchFailed ''token endpoint returned status 500''),
                        mt_ErrorCount := 0 + 1\<rparr>)\<rparr>)"
    and 2: "fst (GetToken tm_T1 ''a'' 1 1 obs_500) = (''T1'', None)"
    by simp_all
  from th [where tm = tm_empty] f c t
  have 3: "refreshToken tm_empty ''a'' auth_tok 1 obs_500
     = (([], Some (RefreshFailedAfterRetries (Some (FetchFailed ''token endpoint returned status 500'')))),
        tm_empty)"
    by simp
  from refreshToken_stale_fallback
    [where obs = obs_cut and ea = "FetchFailed ''token endpoint returned status 500''"
       and authName = "''a''" and tok = tok_T1 and now = 1 and cfg = auth_tok and tm = tm_T1]
    obs_cut_facts t
  have 4: "refreshToken tm_T1 ''a'' auth_tok 1 obs_cut = (([], Some ContextDone), tm_T1)"
    by simp
  show ?thesis using first_GetToken 1 2 3 4 obs_cut_facts by simp
qed

text \<open>
  C5 as stated does not hold of the code. Here the one attempt that is made fails (and any
  later one would), a token \<open>T1\<close> is stored and due, and the context is done during the wait
  before the first retry: the refresh returns the context's error instead of \<open>T1\<close>, and the
  stored token, with its error count, is left as it was.
\<close>

theorem refreshToken_cancelled_counterexample:
  "tm_tokens tm_T1 ''a'' = Some tok_T1 \<and>
   ao_fetch (obs_cut 0) = Inl (FetchFailed ''token endpoint returned status 500'') \<and>
   ao_ctxDone (obs_cut 1) \<and>
   refreshToken tm_T1 ''a'' auth_tok 1 obs_cut = (([], Some ContextDone), tm_T1) \<and>
   fst (refreshToken tm_T1 ''a'' auth_tok 1 obs_cut) \<noteq> (mt_Value tok_T1, None)"
  using tm_T1_facts(1) obs_cut_facts refreshToken_obs_cut by simp

section \<open>Scheduler: proofs\<close>




lemma rewriteCancelled_Some:
  "rewriteCancelled s (Some r) =
     (if rr_ErrorType r = ''cancelled'' \<and> \<not> IsPaused s \<and> IsEnabled (s_configManager s)
      then Some (r\<lparr>rr_ErrorType := ''timeout'', rr_Error := ''Request timeout''\<rparr>)
      else Some r)"
  by (simp add: rewriteCancelled_def)

lemma rewritten_differs:
  "rr_ErrorType r = ''cancelled'' \<Longrightarrow>
   r\<lparr>rr_ErrorType := ''timeout'', rr_Error := ''Request timeout''\<rparr> \<noteq> r"
proof
  assume c: "rr_ErrorType r = ''cancelled''"
    and e: "r\<lparr>rr_ErrorType := ''timeout'', rr_Error := ''Request timeout''\<rparr> = r"
  from e have "rr_ErrorType (r\<lparr>rr_ErrorType := ''timeout'', rr_Error := ''Request timeout''\<rparr>)
                 = rr_ErrorType r" by simp
  with c show False by simp
qed

lemma EmergencyStop_flags:
  "IsPaused (EmergencyStop s)" "\<not> IsEnabled (s_configManager (EmergencyStop s))"
  "s_handled (EmergencyStop s) = s_handled s"
  "s_hasResultHandler (EmergencyStop s) = s_hasResultHandler s"
  by (simp_all add: EmergencyStop_def IsPaused_def IsEnabled_def SetEnabled_def Let_def)

lemma rewriteCancelled_paused:
  "IsPaused s \<or> \<not> IsEnabled (s_configManager s) \<Longrightarrow> rewriteCancelled s result = result"
  by (cases result) (auto simp: rewriteCancelled_def)

lemma completeRequest_handled:
  "s_hasResultHandler s \<Longrightarrow>
   s_handled (completeRequest s result) = s_handled s @ [rewriteCancelled s result]"
  by (simp add: completeRequest_def Let_def)

lemma executeRequest_completes:
  assumes "preCheck s = Proceed sa" "afterAcquire (duringWait sa) acquired endpoint = Proceed sb"
  shows "executeRequest s endpoint duringWait acquired duringExecute result =
           completeRequest (duringExecute sb) result"
  using assms by (simp add: executeRequest_def)

text \<open>
  Claim C6. The dispatch changes the result it got from the client exactly when the
  result's \<open>error_kind\<close> is \<open>cancelled\<close> and, at completion, the scheduler is not paused and
  the master enabled flag is on; the change sets \<open>error_kind\<close> to \<open>timeout\<close>. A dispatch that
  reaches the HTTP exchange hands the result, so treated, to the result callback.
  \<open>EmergencyStop\<close> sets the paused flag and clears master-enable, so a result that
  completes in the state it leaves is handed over as it came: cancelled results are not
  rewritten.
\<close>

theorem cancelled_rewritten_iff_running:
  "(rewriteCancelled s (Some r) \<noteq> Some r \<longleftrightarrow>
      rr_ErrorType r = ''cancelled'' \<and> \<not> IsPaused s \<and> IsEnabled (s_configManager s)) \<and>
   (rewriteCancelled s (Some r) \<noteq> Some r \<longrightarrow>
      rewriteCancelled s (Some r) =
        Some (r\<lparr>rr_ErrorType := ''timeout'', rr_Error := ''Request timeout''\<rparr>)) \<and>
   (preCheck s = Proceed sa \<and> afterAcquire (duringWait sa) acquired endpoint = Proceed sb \<and>
    s_hasResultHandler (duringExecute sb) \<longrightarrow>
      s_handled (executeRequest s endpoint duringWait acquired duringExecute result) =
        s_handled (duringExecute sb) @ [rewriteCancelled (duringExecute sb) result]) \<and>
   IsPaused (EmergencyStop s) \<and> \<not> IsEnabled (s_configManager (EmergencyStop s)) \<and>
   rewriteCancelled (EmergencyStop s) result = result \<and>
   (preCheck s = Proceed sa \<and> afterAcquire (duringWait sa) acquired endpoint = Proceed sb \<and>
    s_hasResultHandler sb \<longrightarrow>
      s_handled (executeRequest s endpoint duringWait acquired EmergencyStop result) =
        s_handled sb @ [result])"
proof -
  have a: "rewriteCancelled s (Some r) \<noteq> Some r \<longleftrightarrow>
      rr_ErrorType r = ''cancelled'' \<and> \<not> IsPaused s \<and> IsEnabled (s_configManager s)"
    using rewritten_differs [of r] by (auto simp: rewriteCancelled_Some)
  have b: "rewriteCancelled s (Some r) \<noteq> Some r \<longrightarrow>
      rewriteCancelled s (Some r) =
        Some (r\<lparr>rr_ErrorType := ''timeout'', rr_Error := ''Request timeout''\<rparr>)"
    by (simp add: rewriteCancelled_Some)
  have c: "s_handled (executeRequest s endpoint duringWait acquired f result) =
        s_handled (f sb) @ [rewriteCancelled (f sb) result]"
    if "preCheck s = Proceed sa" "afterAcquire (duringWait sa) acquired endpoint = Proceed sb"
       "s_hasResultHandler (f sb)" for f
    using that by (simp add: executeRequest_completes completeRequest_handled)
  have d: "rewriteCancelled (EmergencyStop s') result = result" for s'
    by (rule rewriteCancelled_paused) (simp add: EmergencyStop_flags)
  have e: "s_handled (executeRequest s endpoint duringWait acquired EmergencyStop result) =
        s_handled sb @ [result]"
    if "preCheck s = Proceed sa" "afterAcquire (duringWait sa) acquired endpoint = Proceed sb"
       "s_hasResultHandler sb"
    using c [OF that(1,2), of EmergencyStop] that(3) d [of sb] by (simp add: EmergencyStop_flags)
  show ?thesis using a b c [of duringExecute] d [of s] e EmergencyStop_flags(1,2) [of s] by blast
qed


lemma sched_running_flags:
  "\<not> IsPaused sched_running" "IsEnabled (s_configManager sched_running)"
  by (simp_all add: sched_running_def IsPaused_def IsEnabled_def NewManager_def)

lemma sched_running_pre: "preCheck sched_running = Proceed sched_running"
  by (simp add: preCheck_def sched_running_flags)

lemma sched_running_acquire:
  "afterAcquire sched_running True ep_plain =
     Proceed (sched_running\<lparr>s_requestsInFlight := 1\<rparr>)"
proof -
  have "IsEndpointEnabled (s_configManager sched_running) (ep_Name ep_plain) = Inr True"
    by (simp add: IsEndpointEnabled_def sched_running_def ep_plain_def)
  then show ?thesis
    by (simp add: afterAcquire_def sched_running_flags) (simp add: sched_running_def)
qed

text \<open>
  The instance of C6 at a running scheduler with one enabled endpoint and a cancelled
  result: with \<open>EmergencyStop\<close> during the exchange the callback receives the result
  unchanged, with nothing happening during the exchange it receives it as a timeout.
\<close>

theorem cancelled_rewritten_iff_running_witness:
  "preCheck sched_running = Proceed sched_running \<and>
   afterAcquire (id sched_running) True ep_plain = Proceed (sched_running\<lparr>s_requestsInFlight := 1\<rparr>) \<and>
   s_hasResultHandler (sched_running\<lparr>s_requestsInFlight := 1\<rparr>) \<and>
   s_handled (executeRequest sched_running ep_plain id True EmergencyStop (Some result_cancelled))
     = [Some result_cancelled] \<and>
   s_handled (executeRequest sched_running ep_plain id True id (Some result_cancelled))
     = [Some (result_cancelled\<lparr>rr_ErrorType := ''timeout'', rr_Error := ''Request timeout''\<rparr>)] \<and>
   rewriteCancelled sched_running (Some result_cancelled) \<noteq> Some result_cancelled \<and>
   rr_ErrorType result_cancelled = ''cancelled'' \<and> \<not> IsPaused sched_running \<and>
   IsEnabled (s_configManager sched_running)"
proof -
  let ?s2 = "sched_running\<lparr>s_requestsInFlight := 1\<rparr>"
  have p: "preCheck sched_running = Proceed sched_running" by (rule sched_running_pre)
  have q: "afterAcquire (id sched_running) True ep_plain = Proceed ?s2"
    using sched_running_acquire by simp
  have h: "s_hasResultHandler ?s2" "s_hasResultHandler (id ?s2)" "s_handled ?s2 = []"
    by (simp_all add: sched_running_def)
  have c: "rr_ErrorType result_cancelled = ''cancelled''" by (simp add: result_cancelled_def)
  have f2: "\<not> IsPaused ?s2" "IsEnabled (s_configManager ?s2)"
    by (simp_all add: sched_running_def IsPaused_def IsEnabled_def NewManager_def)
  note th = cancelled_rewritten_iff_running
    [where s = sched_running and sa = sched_running and sb = ?s2 and duringWait = id
       and acquired = True and endpoint = ep_plain and result = "Some result_cancelled"
       and r = result_cancelled]
  from th [where duringExecute = id] p q h
  have 1: "s_handled (executeRequest sched_running ep_plain id True EmergencyStop (Some result_cancelled))
             = [Some result_cancelled]"
    and 2: "s_handled (executeRequest sched_running ep_plain id True id (Some result_cancelled))
             = [rewriteCancelled ?s2 (Some result_cancelled)]"
    and 3: "rewriteCancelled sched_running (Some result_cancelled) \<noteq> Some result_cancelled"
    using c sched_running_flags by simp_all
  have 4: "rewriteCancelled ?s2 (Some result_cancelled) =
        Some (result_cancelled\<lparr>rr_ErrorType := ''timeout'', rr_Error := ''Request timeout''\<rparr>)"
    using c f2 by (simp add: rewriteCancelled_def)
  show ?thesis using p q h(1) 1 2 3 4 c sched_running_flags by simp
qed

section \<open>Endpoint metrics: proofs\<close>

lemma Add_total_1000:
  assumes "rb_ok rb" "capacity rb = 1000"
  shows "\<exists>rb'. Add rb v = Inr rb' \<and> rb_ok rb' \<and> capacity rb' = 1000"
proof -
  from assms have "0 \<le> index rb" "index rb < int (length (data rb))" "capacity rb \<noteq> 0"
    by (auto simp: rb_ok_def)
  then obtain rb' where a: "Add rb v = Inr rb'" by (auto simp: Add_def)
  moreover have "rb_ok rb'" using rb_ok_add [OF assms(1) a] .
  moreover have "capacity rb' = 1000" using a assms(2) by (auto simp: Add_def split: if_splits)
  ultimately show ?thesis by blast
qed

lemma addTimes_total:
  assumes "rb_ok (em_ResponseTimes em)" "capacity (em_ResponseTimes em) = 1000"
    "rb_ok (em_DNSTimes em)" "capacity (em_DNSTimes em) = 1000"
  shows "\<exists>rt dt. addTimes em t d = Inr (em\<lparr>em_ResponseTimes := rt, em_DNSTimes := dt\<rparr>) \<and>
           rb_ok rt \<and> capacity rt = 1000 \<and> rb_ok dt \<and> capacity dt = 1000"
proof -
  from Add_total_1000 [OF assms(1,2), of t] obtain rt where
    rt: "Add (em_ResponseTimes em) t = Inr rt" "rb_ok rt" "capacity rt = 1000" by blast
  show ?thesis
  proof (cases "d > 0")
    case True
    from Add_total_1000 [OF assms(3,4), of d] obtain dt where
      dt: "Add (em_DNSTimes em) d = Inr dt" "rb_ok dt" "capacity dt = 1000" by blast
    have "addTimes em t d = Inr (em\<lparr>em_ResponseTimes := rt, em_DNSTimes := dt\<rparr>)"
      using True rt(1) dt(1) by (simp add: addTimes_def)
    then show ?thesis using rt dt by blast
  next
    case False
    have "addTimes em t d = Inr (em\<lparr>em_ResponseTimes := rt, em_DNSTimes := em_DNSTimes em\<rparr>)"
      using False rt(1) by (simp add: addTimes_def)
    then show ?thesis using rt assms by blast
  qed
qed

lemma RecordSuccess_inv:
  assumes "em_inv em"
  shows "\<exists>em'. RecordSuccess em now t d c st = Inr em' \<and> em_inv em'"
proof -
  let ?e = "em\<lparr>em_TotalRequests := em_TotalRequests em + 1,
           em_Successful := em_Successful em + 1,
           em_LastStatusCode := st,
           em_LastSuccess := Some now,
           em_TotalTimeMs := em_TotalTimeMs em + t,
           em_TotalDNSTimeMs := em_TotalDNSTimeMs em + d,
           em_TotalConnectMs := em_TotalConnectMs em + c\<rparr>"
  have h: "rb_ok (em_ResponseTimes ?e)" "capacity (em_ResponseTimes ?e) = 1000"
    "rb_ok (em_DNSTimes ?e)" "capacity (em_DNSTimes ?e) = 1000"
    using assms by (simp_all add: em_inv_def)
  from addTimes_total [OF h, of t d] obtain rt dt where
    a: "addTimes ?e t d = Inr (?e\<lparr>em_ResponseTimes := rt, em_DNSTimes := dt\<rparr>)"
    and r: "rb_ok rt" "capacity rt = 1000" "rb_ok dt" "capacity dt = 1000"
    by blast
  have "RecordSuccess em now t d c st = Inr (?e\<lparr>em_ResponseTimes := rt, em_DNSTimes := dt\<rparr>)"
    unfolding RecordSuccess_def using a .
  moreover have "em_inv (?e\<lparr>em_ResponseTimes := rt, em_DNSTimes := dt\<rparr>)"
    using assms r by (simp add: em_inv_def)
  ultimately show ?thesis by blast
qed

lemma categorize_keeps:
  "em_TotalRequests (categorize em ty) = em_TotalRequests em"
  "em_Successful (categorize em ty) = em_Successful em"
  "em_Failed (categorize em ty) = em_Failed em"
  "em_ResponseTimes (categorize em ty) = em_ResponseTimes em"
  "em_DNSTimes (categorize em ty) = em_DNSTimes em"
  by (simp_all add: categorize_def)

lemma RecordFailure_inv:
  assumes "em_inv em"
  shows "\<exists>em'. RecordFailure em t d c st ty msg = Inr em' \<and> em_inv em'"
proof -
  let ?e = "em\<lparr>em_TotalRequests := em_TotalRequests em + 1,
                 em_Failed := em_Failed em + 1,
                 em_LastStatusCode := st,
                 em_LastError := msg,
                 em_TotalTimeMs := em_TotalTimeMs em + t,
                 em_TotalDNSTimeMs := em_TotalDNSTimeMs em + d,
                 em_TotalConnectMs := em_TotalConnectMs em + c\<rparr>"
  have h: "rb_ok (em_ResponseTimes ?e)" "capacity (em_ResponseTimes ?e) = 1000"
    "rb_ok (em_DNSTimes ?e)" "capacity (em_DNSTimes ?e) = 1000"
    using assms by (simp_all add: em_inv_def)
  from addTimes_total [OF h, of t d] obtain rt dt where
    a: "addTimes ?e t d = Inr (?e\<lparr>em_ResponseTimes := rt, em_DNSTimes := dt\<rparr>)"
    and r: "rb_ok rt" "capacity rt = 1000" "rb_ok dt" "capacity dt = 1000"
    by blast
  have "RecordFailure em t d c st ty msg =
          Inr (categorize (?e\<lparr>em_ResponseTimes := rt, em_DNSTimes := dt\<rparr>) ty)"
    unfolding RecordFailure_def using a by simp
  moreover have "em_inv (categorize (?e\<lparr>em_ResponseTimes := rt, em_DNSTimes := dt\<rparr>) ty)"
    using assms r by (simp add: em_inv_def categorize_keeps)
  ultimately show ?thesis by blast
qed

lemma Reset_em_inv: "em_inv em \<Longrightarrow> em_inv (Reset_em em)"
  by (simp add: em_inv_def Reset_em_def rb_ok_reset) (simp add: Reset_def)

lemma NewEndpointMetrics_inv: "NewEndpointMetrics u h = Inr em \<Longrightarrow> em_inv em"
proof -
  assume a: "NewEndpointMetrics u h = Inr em"
  let ?rb = "\<lparr>data = replicate (nat 1000) 0, capacity = 1000, index = 0, rbsize = 0\<rparr>"
  have n: "NewRingBuffer 1000 = Inr ?rb" by (simp add: NewRingBuffer_def)
  have ok: "rb_ok ?rb" by (rule rb_ok_new [OF _ n]) simp
  from a have "em_ResponseTimes em = ?rb" "em_DNSTimes em = ?rb"
    "em_Successful em = 0" "em_Failed em = 0" "em_TotalRequests em = 0"
    unfolding NewEndpointMetrics_def n by auto
  then show ?thesis using ok by (simp add: em_inv_def)
qed

lemma reachable_em_inv: "reachable_em em \<Longrightarrow> em_inv em"
proof (induction rule: reachable_em.induct)
  case (em_new urlPattern hostname em)
  then show ?case by (rule NewEndpointMetrics_inv)
next
  case (em_success em now totalTimeMs dnsTimeMs connectTimeMs statusCode em')
  from RecordSuccess_inv [OF em_success.IH, of now totalTimeMs dnsTimeMs connectTimeMs statusCode]
    em_success.hyps(2)
  show ?case by auto
next
  case (em_failure em totalTimeMs dnsTimeMs connectTimeMs statusCode errorType errorMsg em')
  from RecordFailure_inv [OF em_failure.IH, of totalTimeMs dnsTimeMs connectTimeMs statusCode errorType errorMsg]
    em_failure.hyps(2)
  show ?case by auto
next
  case (em_reset em)
  then show ?case by (simp add: Reset_em_inv)
qed


lemma GetStats_total:
  assumes "em_inv em"
  shows "\<exists>snap. GetStats formatTime em = Inr snap \<and>
           snap_TotalRequests snap = em_TotalRequests em \<and>
           snap_Successful snap = em_Successful em \<and>
           snap_Failed snap = em_Failed em"
proof -
  from assms have ok: "rb_ok (em_ResponseTimes em)" "rb_ok (em_DNSTimes em)"
    by (simp_all add: em_inv_def)
  from Percentile_total [OF ok(1), of 95] obtain p95 where
    p95: "Percentile (em_ResponseTimes em) 95 = Inr p95" by auto
  from Percentile_total [OF ok(1), of 99] obtain p99 where
    p99: "Percentile (em_ResponseTimes em) 99 = Inr p99" by auto
  from MinMaxAverage_total [OF ok(1)] obtain mx where
    mx: "Max_rb (em_ResponseTimes em) = Inr mx" by auto
  from Percentile_total [OF ok(2), of 95] obtain d95 where
    d95: "Percentile (em_DNSTimes em) 95 = Inr d95" by auto
  show ?thesis
    by (simp add: GetStats_def Let_def p95 p99 mx d95)
qed

text \<open>
  Claim C7. In every state of an \<open>EndpointMetrics\<close> record reachable from a new record by
  \<open>RecordSuccess\<close>, \<open>RecordFailure\<close> and \<open>Reset\<close>, \<open>successful + failed = total_requests\<close>
  (on the 64-bit counters), \<open>GetStats\<close> returns a snapshot, and the equality holds in it.
  The two recording operations always return a new state there, so every run of the three
  operations stays within these states.
\<close>

theorem successful_plus_failed_is_total:
  "reachable_em em \<longrightarrow>
     em_Successful em + em_Failed em = em_TotalRequests em \<and>
     (\<exists>snap. GetStats formatTime em = Inr snap \<and>
        snap_Successful snap + snap_Failed snap = snap_TotalRequests snap) \<and>
     (\<exists>em'. RecordSuccess em now totalTimeMs dnsTimeMs connectTimeMs statusCode = Inr em') \<and>
     (\<exists>em'. RecordFailure em totalTimeMs dnsTimeMs connectTimeMs statusCode errorType errorMsg
              = Inr em')"
proof
  assume "reachable_em em"
  then have inv: "em_inv em" by (rule reachable_em_inv)
  then have c: "em_Successful em + em_Failed em = em_TotalRequests em"
    by (simp add: em_inv_def)
  from GetStats_total [OF inv, of formatTime] c
  have g: "\<exists>snap. GetStats formatTime em = Inr snap \<and>
        snap_Successful snap + snap_Failed snap = snap_TotalRequests snap"
    by auto
  from RecordSuccess_inv [OF inv, of now totalTimeMs dnsTimeMs connectTimeMs statusCode]
  have s: "\<exists>em'. RecordSuccess em now totalTimeMs dnsTimeMs connectTimeMs statusCode = Inr em'"
    by blast
  from RecordFailure_inv [OF inv, of totalTimeMs dnsTimeMs connectTimeMs statusCode errorType errorMsg]
  have f: "\<exists>em'. RecordFailure em totalTimeMs dnsTimeMs connectTimeMs statusCode errorType errorMsg
              = Inr em'"
    by blast
  show "em_Successful em + em_Failed em = em_TotalRequests em \<and>
     (\<exists>snap. GetStats formatTime em = Inr snap \<and>
        snap_Successful snap + snap_Failed snap = snap_TotalRequests snap) \<and>
     (\<exists>em'. RecordSuccess em now totalTimeMs dnsTimeMs connectTimeMs statusCode = Inr em') \<and>
     (\<exists>em'. RecordFailure em totalTimeMs dnsTimeMs connectTimeMs statusCode errorType errorMsg
              = Inr em')"
    using c g s f by blast
qed

lemma em_fresh_new: "NewEndpointMetrics ''http://localhost/x'' ''localhost'' = Inr em_fresh"
  by (simp add: NewEndpointMetrics_def NewRingBuffer_def em_fresh_def rb_fresh_def)

lemma em_one_step: "RecordSuccess em_fresh 7 12 0 0 200 = Inr em_one"
  by (simp add: RecordSuccess_def addTimes_def Add_def em_fresh_def em_one_def rb_fresh_def
      signed_modulo_int_def)

lemma em_two_step: "RecordFailure em_one 30 0 0 500 ''http'' ''HTTP 500'' = Inr em_two"
  by (simp add: RecordFailure_def addTimes_def Add_def categorize_def em_fresh_def em_one_def
      em_two_def rb_fresh_def signed_modulo_int_def)

lemma reachable_em_two: "reachable_em em_two"
  by (rule em_failure [OF em_success [OF em_new [OF em_fresh_new] em_one_step] em_two_step])

text \<open>
  The instance of C7 after one success and one failure: the counters read 1, 1 and 2.
\<close>

theorem successful_plus_failed_is_total_witness:
  "reachable_em em_two \<and>
   em_Successful em_two = 1 \<and> em_Failed em_two = 1 \<and> em_TotalRequests em_two = 2 \<and>
   em_Successful em_two + em_Failed em_two = em_TotalRequests em_two \<and>
   (\<exists>snap. GetStats (\<lambda>t. []) em_two = Inr snap \<and>
      snap_Successful snap + snap_Failed snap = snap_TotalRequests snap)"
proof -
  have v: "em_Successful em_two = 1" "em_Failed em_two = 1" "em_TotalRequests em_two = 2"
    by (simp_all add: em_two_def em_one_def em_fresh_def)
  from successful_plus_failed_is_total [of em_two "\<lambda>t. []"] reachable_em_two
  have "em_Successful em_two + em_Failed em_two = em_TotalRequests em_two \<and>
     (\<exists>snap. GetStats (\<lambda>t. []) em_two = Inr snap \<and>
        snap_Successful snap + snap_Failed snap = snap_TotalRequests snap)"
    by blast
  then show ?thesis using v reachable_em_two by blast
qed


end
